theory Spec2Isabelle
  imports Complex_Main
begin

section \<open>Character-level RNN notebook: sampling, training loop, checkpoints\<close>

text \<open>
  The notebook \<^verbatim>\<open>tp_rnn.ipynb\<close> drives a neural-network framework. The framework's
  own operations (the forward step behind \<^verbatim>\<open>sess.run\<close>, gradients, their clipping, the
  optimizer, the pickle and checkpoint files) are parameters or small functional models
  here; the notebook's own control flow is translated statement by statement.

  Floats: the floats \<open>weighted_pick\<close> computes with are values of a type \<open>'f\<close>, and the
  operations of NumPy on them are parameters, so that nothing is assumed about
  rounding, overflow or values that are not numbers. Gradients are values of a type
  \<open>'g\<close>. A concrete arithmetic, the rounding of single and double precision floats, is
  given for the examples. Python exceptions are values of \<open>py_error\<close>.
\<close>

subsection \<open>Exceptions\<close>

text \<open>
  \<open>IndexError\<close>, \<open>KeyError\<close>, \<open>NameError\<close>, \<open>FileNotFoundError\<close>, \<open>ValueError\<close> and
  \<open>UnpicklingError\<close> are raised by statements of the notebook; \<open>FrameworkError\<close> stands
  for any other exception raised inside a framework call. \<open>ConfigError\<close>,
  \<open>CheckpointNotFoundError\<close> and \<open>NumericalDivergenceError\<close> are the names of the
  specification's taxonomy; no statement of the notebook raises them.
\<close>

datatype py_error =
    IndexError
  | KeyError
  | NameError
  | FileNotFoundError
  | ValueError
  | UnpicklingError
  | FrameworkError
  | ConfigError
  | CheckpointNotFoundError
  | NumericalDivergenceError

subsection \<open>NumPy's global random generator\<close>

text \<open>
  The generator state is the infinite sequence of 53-bit integers it will produce;
  \<^verbatim>\<open>np.random.rand(1)\<close> returns the next one divided by \<open>2^53\<close>, a number in \<open>[0, 1)\<close>,
  and advances the generator.
\<close>

type_synonym rng = "nat \<Rightarrow> nat"

definition rand :: "rng \<Rightarrow> real \<times> rng" where
  "rand g = (real (g 0 mod 2 ^ 53) / 2 ^ 53, \<lambda>k. g (Suc k))"

subsection \<open>\<^verbatim>\<open>weighted_pick\<close> (lines 177-180)\<close>

text \<open>
  The operations of NumPy on floats that \<open>weighted_pick\<close> uses:
  \<^item> \<open>np_add\<close>: the addition of the array's type, by which \<^verbatim>\<open>np.cumsum\<close> accumulates;
  \<^item> \<open>np_sum\<close>: \<^verbatim>\<open>np.sum\<close> of an array, with whatever order and rounding it sums in;
  \<^item> \<open>np_scale r s\<close>: the product \<^verbatim>\<open>np.random.rand(1)*s\<close> of a draw and a float;
  \<^item> \<open>np_less\<close>: the comparison by which \<^verbatim>\<open>np.searchsorted\<close> orders two floats.
\<close>

record 'f numpy =
  np_add :: "'f \<Rightarrow> 'f \<Rightarrow> 'f"
  np_sum :: "'f list \<Rightarrow> 'f"
  np_scale :: "real \<Rightarrow> 'f \<Rightarrow> 'f"
  np_less :: "'f \<Rightarrow> 'f \<Rightarrow> bool"

text \<open>
  \<^verbatim>\<open>np.cumsum\<close>: the first entry, then each running sum plus the next entry, left to
  right.
\<close>

fun cumsum_from :: "'f numpy \<Rightarrow> 'f \<Rightarrow> 'f list \<Rightarrow> 'f list" where
  "cumsum_from N acc [] = []"
| "cumsum_from N acc (w # ws) = np_add N acc w # cumsum_from N (np_add N acc w) ws"

fun cumsum :: "'f numpy \<Rightarrow> 'f list \<Rightarrow> 'f list" where
  "cumsum N [] = []"
| "cumsum N (w # ws) = w # cumsum_from N w ws"

text \<open>
  \<^verbatim>\<open>np.searchsorted(t, v)\<close> with the default \<^verbatim>\<open>side='left'\<close>: NumPy's binary search,
  which probes the middle of \<open>[lo, hi)\<close> and moves right while the probed entry is
  smaller than \<open>v\<close>. On an unsorted array the result is whatever the probes lead to.
\<close>

function bisect_left :: "'f numpy \<Rightarrow> 'f list \<Rightarrow> 'f \<Rightarrow> nat \<Rightarrow> nat \<Rightarrow> nat" where
  "bisect_left N a v lo hi =
     (if lo < hi then
        (let mid = lo + (hi - lo) div 2
         in if np_less N (a ! mid) v then bisect_left N a v (Suc mid) hi
            else bisect_left N a v lo mid)
      else lo)"
  by pat_completeness auto
termination
  by (relation "measure (\<lambda>(N, a, v, lo, hi). hi - lo)") auto

declare bisect_left.simps [simp del]

definition searchsorted :: "'f numpy \<Rightarrow> 'f list \<Rightarrow> 'f \<Rightarrow> nat" where
  "searchsorted N a v = bisect_left N a v 0 (length a)"

definition weighted_pick :: "'f numpy \<Rightarrow> 'f list \<Rightarrow> rng \<Rightarrow> nat \<times> rng" where
  "weighted_pick N weights g =
     (let t = cumsum N weights;
          s = np_sum N weights;
          (r, g') = rand g
      in (searchsorted N t (np_scale N r s), g'))"

subsection \<open>\<^verbatim>\<open>Model.sample\<close> (lines 166-195)\<close>

text \<open>
  A Python \<^verbatim>\<open>str\<close> is a list of code points of type \<open>'c\<close>. \<open>vocab\<close> is the dictionary
  from characters to indices, \<open>chars\<close> the tuple of characters.

  \<open>fwd state i\<close> is \<^verbatim>\<open>sess.run([self.probs, self.final_state], feed)\<close> on the inference
  graph with input index \<open>i\<close> and initial state \<open>state\<close>, under the session's current
  parameters: it returns the row \<open>probs[0]\<close> and the final state.
\<close>

type_synonym 'c vocab = "'c \<rightharpoonup> nat"
type_synonym ('s, 'f) forward = "'s \<Rightarrow> nat \<Rightarrow> 'f list \<times> 's"

text \<open>\<^verbatim>\<open>xs[i]\<close> for a non-negative index.\<close>

definition py_index :: "'a list \<Rightarrow> nat \<Rightarrow> py_error + 'a" where
  "py_index xs i = (if i < length xs then Inr (xs ! i) else Inl IndexError)"

text \<open>\<^verbatim>\<open>xs[-1]\<close>.\<close>

definition py_last :: "'a list \<Rightarrow> py_error + 'a" where
  "py_last xs = (if xs = [] then Inl IndexError else Inr (last xs))"

text \<open>Lines 170-174: the loop over \<^verbatim>\<open>prime[:-1]\<close>; only the state is kept.\<close>

fun warm_up :: "('s, 'f) forward \<Rightarrow> 'c vocab \<Rightarrow> 's \<Rightarrow> 'c list \<Rightarrow> py_error + 's" where
  "warm_up fwd vocab state [] = Inr state"
| "warm_up fwd vocab state (c # cs) =
     (case vocab c of
        None \<Rightarrow> Inl KeyError
      | Some i \<Rightarrow> warm_up fwd vocab (snd (fwd state i)) cs)"

text \<open>
  Lines 185-194: the generation loop, \<open>num\<close> iterations. The arguments after \<open>num\<close> are
  the loop's variables \<^verbatim>\<open>state\<close>, \<^verbatim>\<open>char\<close>, \<^verbatim>\<open>ret\<close> and the generator.
\<close>

fun generate ::
  "'f numpy \<Rightarrow> ('s, 'f) forward \<Rightarrow> 'c list \<Rightarrow> 'c vocab \<Rightarrow> nat \<Rightarrow> 's \<Rightarrow> 'c \<Rightarrow> 'c list \<Rightarrow> rng
     \<Rightarrow> py_error + ('c list \<times> rng)" where
  "generate N fwd chars vocab 0 state c ret g = Inr (ret, g)"
| "generate N fwd chars vocab (Suc n) state c ret g =
     (case vocab c of
        None \<Rightarrow> Inl KeyError
      | Some i \<Rightarrow>
          (case fwd state i of (p, state') \<Rightarrow>
             (case weighted_pick N p g of (sample, g') \<Rightarrow>
                (case py_index chars sample of
                   Inl e \<Rightarrow> Inl e
                 | Inr pred \<Rightarrow> generate N fwd chars vocab n state' pred (ret @ [pred]) g'))))"

text \<open>
  The whole method. \<open>zero\<close> is \<^verbatim>\<open>sess.run(self.cell.zero_state(1, tf.float32))\<close>. The
  result is the returned string and the generator state left behind.
\<close>

definition Model_sample ::
  "'f numpy \<Rightarrow> ('s, 'f) forward \<Rightarrow> 's \<Rightarrow> 'c list \<Rightarrow> 'c vocab \<Rightarrow> nat \<Rightarrow> 'c list \<Rightarrow> rng
     \<Rightarrow> py_error + ('c list \<times> rng)" where
  "Model_sample N fwd zero chars vocab num prime g =
     (case warm_up fwd vocab zero (butlast prime) of
        Inl e \<Rightarrow> Inl e
      | Inr state \<Rightarrow>
          (case py_last prime of
             Inl e \<Rightarrow> Inl e
           | Inr c \<Rightarrow> generate N fwd chars vocab num state c prime g))"

subsection \<open>The sampler in the specification's words\<close>

text \<open>
  Section 4.3 of the specification, written directly: the state after feeding a list of
  characters through the model; the characters drawn in \<open>n\<close> steps, each drawn by the
  weighted pick from the step's distribution and fed back as the next input; and the
  condition under which no lookup of those steps fails, which is that every character
  fed is a key of \<open>vocab\<close> and every index drawn is a position of \<open>chars\<close>. They are
  compared with \<open>Model_sample\<close> below.
\<close>

definition spec_warm_state :: "('s, 'f) forward \<Rightarrow> 'c vocab \<Rightarrow> 's \<Rightarrow> 'c list \<Rightarrow> 's" where
  "spec_warm_state fwd vocab zero cs = foldl (\<lambda>s c. snd (fwd s (the (vocab c)))) zero cs"

fun spec_generated ::
  "'f numpy \<Rightarrow> ('s, 'f) forward \<Rightarrow> 'c list \<Rightarrow> 'c vocab \<Rightarrow> nat \<Rightarrow> 's \<Rightarrow> 'c \<Rightarrow> rng \<Rightarrow> 'c list" where
  "spec_generated N fwd chars vocab 0 state c g = []"
| "spec_generated N fwd chars vocab (Suc n) state c g =
     (case fwd state (the (vocab c)) of (p, state') \<Rightarrow>
        (case weighted_pick N p g of (k, g') \<Rightarrow>
           chars ! k # spec_generated N fwd chars vocab n state' (chars ! k) g'))"

fun spec_lookups_ok ::
  "'f numpy \<Rightarrow> ('s, 'f) forward \<Rightarrow> 'c list \<Rightarrow> 'c vocab \<Rightarrow> nat \<Rightarrow> 's \<Rightarrow> 'c \<Rightarrow> rng \<Rightarrow> bool" where
  "spec_lookups_ok N fwd chars vocab 0 state c g = True"
| "spec_lookups_ok N fwd chars vocab (Suc n) state c g =
     (case vocab c of
        None \<Rightarrow> False
      | Some i \<Rightarrow>
          (case fwd state i of (p, state') \<Rightarrow>
             (case weighted_pick N p g of (k, g') \<Rightarrow>
                k < length chars \<and>
                spec_lookups_ok N fwd chars vocab n state' (chars ! k) g')))"

subsection \<open>The framework\<close>

text \<open>
  A loss is a float and may be non-finite.
\<close>

datatype pyfloat = Finite real | PosInf | NegInf | NaN

text \<open>
  The operations of the libraries the notebook calls, as parameters. \<open>'v\<close> is the value
  of all trainable variables together with the optimizer's slots, \<open>'s\<close> a recurrent
  state, \<open>'b\<close> a batch (the pair of input and target grids), \<open>'g\<close> a list of gradients,
  one per trainable variable, \<open>'f\<close> a float.
  \<^item> \<open>tf_accepts b s v\<close>: building the graph of \<open>Model.__init__\<close> for these dimensions
    raises no exception inside the framework;
  \<^item> \<open>tf_init seed\<close>: \<^verbatim>\<open>tf.global_variables_initializer()\<close> under the graph-level seed;
  \<^item> \<open>tf_zero_state b\<close>: \<^verbatim>\<open>cell.zero_state(b, tf.float32)\<close>, evaluated;
  \<^item> \<open>tf_forward v\<close>: one inference step, see \<open>forward\<close>;
  \<^item> \<open>tf_cost v state batch\<close>: \<^verbatim>\<open>self.cost\<close> and \<^verbatim>\<open>self.final_state\<close> on a training batch;
  \<^item> \<open>tf_gradients v state batch\<close>: \<^verbatim>\<open>tf.gradients(self.cost, tvars)\<close>;
  \<^item> \<open>tf_clip_by_global_norm grads c\<close>: \<^verbatim>\<open>tf.clip_by_global_norm(grads, c)\<close>, the clipped
    list and the global norm;
  \<^item> \<open>tf_adam rate grads v\<close>: \<^verbatim>\<open>tf.train.AdamOptimizer(rate).apply_gradients(zip(grads, tvars))\<close>;
  \<^item> \<open>numpy_ops\<close>: the arithmetic of NumPy, see \<open>numpy\<close>.
\<close>

record ('v, 's, 'b, 'g, 'f) framework =
  tf_accepts :: "int \<Rightarrow> int \<Rightarrow> int \<Rightarrow> bool"
  tf_init :: "nat option \<Rightarrow> 'v"
  tf_zero_state :: "int \<Rightarrow> 's"
  tf_forward :: "'v \<Rightarrow> ('s, 'f) forward"
  tf_cost :: "'v \<Rightarrow> 's \<Rightarrow> 'b \<Rightarrow> pyfloat \<times> 's"
  tf_gradients :: "'v \<Rightarrow> 's \<Rightarrow> 'b \<Rightarrow> 'g"
  tf_clip_by_global_norm :: "'g \<Rightarrow> real \<Rightarrow> 'g \<times> 'f"
  tf_adam :: "real \<Rightarrow> 'g \<Rightarrow> 'v \<Rightarrow> 'v"
  numpy_ops :: "'f numpy"

subsection \<open>\<^verbatim>\<open>Model.__init__\<close> (lines 96-164)\<close>

text \<open>
  The object the constructor leaves behind: the dimensions its graph was built with and
  the two constants of lines 97-98.
\<close>

record Model =
  graph_batch_size :: int
  graph_seq_length :: int
  graph_vocab_size :: int
  rnn_size :: nat
  num_layers :: nat

text \<open>
  Lines 100-102 replace the two dimensions by 1 when \<open>training\<close> is false; the rest of
  the body is calls into the framework, with no check of its own on the arguments.
\<close>

definition Model_init ::
  "('v, 's, 'b, 'g, 'f) framework \<Rightarrow> int \<Rightarrow> int \<Rightarrow> int \<Rightarrow> bool \<Rightarrow> py_error + Model" where
  "Model_init F batch_size seq_length vocab_size training =
     (let batch_size' = (if \<not> training then 1 else batch_size);
          seq_length' = (if \<not> training then 1 else seq_length)
      in if tf_accepts F batch_size' seq_length' vocab_size
         then Inr \<lparr>graph_batch_size = batch_size', graph_seq_length = seq_length',
                   graph_vocab_size = vocab_size, rnn_size = 128, num_layers = 1\<rparr>
         else Inl FrameworkError)"

text \<open>
  The session: the variables' values, the variable \<^verbatim>\<open>self.lr\<close> of line 159 (not
  trainable, initial value 0.0), and the record of the training runs made so far: for
  each \<^verbatim>\<open>sess.run\<close> of the training operation, what was fed, which learning rate and
  which gradients the optimizer was given, and what came back.
\<close>

record ('v, 's, 'b, 'g) run_record =
  vars_before :: 'v
  fed_state :: 's
  fed_batch :: 'b
  used_lr :: real
  applied_grads :: 'g
  vars_after :: 'v
  got_loss :: pyfloat
  got_state :: 's

record ('v, 's, 'b, 'g) session =
  vars :: 'v
  lr :: real
  run_log :: "('v, 's, 'b, 'g) run_record list"

text \<open>\<^verbatim>\<open>sess.run(tf.global_variables_initializer())\<close> in a fresh session.\<close>

definition init_session ::
  "('v, 's, 'b, 'g, 'f) framework \<Rightarrow> nat option \<Rightarrow> ('v, 's, 'b, 'g) session" where
  "init_session F seed = \<lparr>vars = tf_init F seed, lr = 0, run_log = []\<rparr>"

text \<open>
  Line 161, \<^verbatim>\<open>grads, _ = tf.clip_by_global_norm(tf.gradients(self.cost, tvars), 5.)\<close>: the
  gradients of the cost at the session's variables, clipped with the constant \<open>5\<close>.
\<close>

definition clipped_gradients ::
  "('v, 's, 'b, 'g, 'f) framework \<Rightarrow> ('v, 's, 'b, 'g) session \<Rightarrow> 's \<Rightarrow> 'b \<Rightarrow> 'g" where
  "clipped_gradients F sess state batch =
     (case tf_clip_by_global_norm F (tf_gradients F (vars sess) state batch) 5 of
        (grads, _) \<Rightarrow> grads)"

text \<open>
  Lines 162-164, \<^verbatim>\<open>self.train_op\<close>: the clipped gradients applied by the Adam optimizer
  built on \<^verbatim>\<open>self.lr\<close>. Result: the new variables.
\<close>

definition train_op ::
  "('v, 's, 'b, 'g, 'f) framework \<Rightarrow> ('v, 's, 'b, 'g) session \<Rightarrow> 's \<Rightarrow> 'b \<Rightarrow> 'v" where
  "train_op F sess state batch =
     tf_adam F (lr sess) (clipped_gradients F sess state batch) (vars sess)"

subsection \<open>The data loader\<close>

text \<open>
  Modelled from the spec: the class \<^verbatim>\<open>TextLoader\<close> of \<^verbatim>\<open>utils.py\<close> is missing. Section 6:
  the provider exposes the vocabulary size, a method to reset an internal cursor to the
  start of the corpus, a count of batches per epoch, and a method returning the next
  batch. \<open>batches\<close> is the epoch's sequence of batches.
\<close>

record ('b, 'c) TextLoader =
  batches :: "'b list"
  pointer :: nat
  loader_chars :: "'c list"
  loader_vocab :: "'c vocab"
  loader_vocab_size :: int

text \<open>Modelled from the spec: the count of batches per epoch.\<close>

definition num_batches :: "('b, 'c) TextLoader \<Rightarrow> nat" where
  "num_batches ld = length (batches ld)"

text \<open>Modelled from the spec: the method that resets the cursor to the start of the corpus.\<close>

definition reset_batch_pointer :: "('b, 'c) TextLoader \<Rightarrow> ('b, 'c) TextLoader" where
  "reset_batch_pointer ld = ld\<lparr>pointer := 0\<rparr>"

text \<open>
  Modelled from the spec: the method that returns the batch under the cursor and moves
  the cursor on; past the last batch the list index is out of range.
\<close>

definition next_batch :: "('b, 'c) TextLoader \<Rightarrow> py_error + ('b \<times> ('b, 'c) TextLoader)" where
  "next_batch ld =
     (case py_index (batches ld) (pointer ld) of
        Inl e \<Rightarrow> Inl e
      | Inr batch \<Rightarrow> Inr (batch, ld\<lparr>pointer := pointer ld + 1\<rparr>))"

subsection \<open>The training loop (lines 272-301)\<close>

text \<open>
  Modelled from the spec: line 290, "Run the model for the current batch - To complete",
  is missing. Section 4.2 and the notebook's instructions: run the forward pass and the
  optimization step on the current batch, fed with the current recurrent state, and
  return the loss; the returned final state is the state carried to the next batch.
  That is \<^verbatim>\<open>train_loss, state, _ = sess.run([model.cost, model.final_state,
  model.train_op], feed)\<close>.
\<close>

definition run_batch ::
  "('v, 's, 'b, 'g, 'f) framework \<Rightarrow> ('v, 's, 'b, 'g) session \<Rightarrow> 's \<Rightarrow> 'b
     \<Rightarrow> pyfloat \<times> 's \<times> ('v, 's, 'b, 'g) session" where
  "run_batch F sess state batch =
     (case tf_cost F (vars sess) state batch of
        (train_loss, state') \<Rightarrow>
          (let vars' = train_op F sess state batch
           in (train_loss, state',
               sess\<lparr>vars := vars',
                    run_log := run_log sess @
                      [\<lparr>vars_before = vars sess, fed_state = state, fed_batch = batch,
                        used_lr = lr sess,
                        applied_grads = clipped_gradients F sess state batch,
                        vars_after = vars', got_loss = train_loss,
                        got_state = state'\<rparr>]\<rparr>)))"

text \<open>
  The variables of the cell that outlive a batch: the session, the loader, the list
  \<^verbatim>\<open>losses\<close>, and the loop variables \<^verbatim>\<open>e\<close> and \<^verbatim>\<open>b\<close>, which are unbound until their loop
  has run once and are read after the loops, at line 300.
\<close>

record ('v, 's, 'b, 'g, 'c) train_vars =
  sess :: "('v, 's, 'b, 'g) session"
  data_loader :: "('b, 'c) TextLoader"
  losses :: "pyfloat list"
  e_var :: "nat option"
  b_var :: "nat option"

text \<open>
  Lines 285-296, \<^verbatim>\<open>for b in range(data_loader.num_batches)\<close>, over the list of values of
  \<open>b\<close>. Line 287, "Load the current batch", is modelled from the spec as
  \<^verbatim>\<open>data_loader.next_batch()\<close>. The \<^verbatim>\<open>print\<close> of lines 293-296 formats numbers and is left
  out. No statement of the loop looks at the value of \<^verbatim>\<open>train_loss\<close>.
\<close>

fun batch_loop ::
  "('v, 's, 'b, 'g, 'f) framework \<Rightarrow> nat list \<Rightarrow> 's \<Rightarrow> ('v, 's, 'b, 'g, 'c) train_vars
     \<Rightarrow> py_error + ('s \<times> ('v, 's, 'b, 'g, 'c) train_vars)" where
  "batch_loop F [] state tv = Inr (state, tv)"
| "batch_loop F (b # bs) state tv =
     (case next_batch (data_loader tv) of
        Inl err \<Rightarrow> Inl err
      | Inr (batch, ld') \<Rightarrow>
          (case run_batch F (sess tv) state batch of
             (train_loss, state', sess') \<Rightarrow>
               batch_loop F bs state'
                 (tv\<lparr>sess := sess', data_loader := ld',
                     losses := losses tv @ [train_loss], b_var := Some b\<rparr>)))"

text \<open>
  Lines 279-296, the body of \<^verbatim>\<open>for e in range(num_epochs)\<close>. Line 281, "Reset the batch
  pointer", is modelled from the spec as \<^verbatim>\<open>data_loader.reset_batch_pointer()\<close>; line 284
  evaluates \<^verbatim>\<open>model.initial_state\<close>, the zero state for the graph's batch size.
\<close>

definition run_epoch ::
  "('v, 's, 'b, 'g, 'f) framework \<Rightarrow> Model \<Rightarrow> nat \<Rightarrow> ('v, 's, 'b, 'g, 'c) train_vars
     \<Rightarrow> py_error + ('s \<times> ('v, 's, 'b, 'g, 'c) train_vars)" where
  "run_epoch F model e tv =
     (let tv1 = tv\<lparr>e_var := Some e, data_loader := reset_batch_pointer (data_loader tv)\<rparr>;
          state = tf_zero_state F (graph_batch_size model)
      in batch_loop F [0..<num_batches (data_loader tv1)] state tv1)"

fun epoch_loop ::
  "('v, 's, 'b, 'g, 'f) framework \<Rightarrow> Model \<Rightarrow> nat list \<Rightarrow> ('v, 's, 'b, 'g, 'c) train_vars
     \<Rightarrow> py_error + ('v, 's, 'b, 'g, 'c) train_vars" where
  "epoch_loop F model [] tv = Inr tv"
| "epoch_loop F model (e # es) tv =
     (case run_epoch F model e tv of
        Inl err \<Rightarrow> Inl err
      | Inr (state, tv') \<Rightarrow> epoch_loop F model es tv')"

subsection \<open>The save directory\<close>

text \<open>
  The files of the directory \<^verbatim>\<open>save\<close> that the notebook names, and what they hold.
  \<^verbatim>\<open>cPickle.dump\<close> and \<^verbatim>\<open>cPickle.load\<close> store and return the pickled object;
  \<^verbatim>\<open>saver.save(sess, 'save/model.ckpt', global_step=n)\<close> writes the values of all global
  variables to \<^verbatim>\<open>model.ckpt-n\<close> and records that name in the file \<^verbatim>\<open>checkpoint\<close>.
\<close>

datatype path = ConfigPkl | CharsVocabPkl | CheckpointIndex | ModelCkpt nat | SampleTxt

datatype ('c, 'v) saved_file =
    Pickle3 int int int
  | Pickle2 "'c list" "'c vocab"
  | CheckpointState nat
  | SavedVariables 'v real
  | Utf8Text "'c list"

type_synonym ('c, 'v) fs = "path \<rightharpoonup> ('c, 'v) saved_file"

text \<open>Lines 357-358 and 359-360: open, load, unpack.\<close>

definition load_config :: "('c, 'v) fs \<Rightarrow> py_error + (int \<times> int \<times> int)" where
  "load_config fs =
     (case fs ConfigPkl of
        None \<Rightarrow> Inl FileNotFoundError
      | Some (Pickle3 batch_size seq_length vocab_size) \<Rightarrow> Inr (batch_size, seq_length, vocab_size)
      | Some (Pickle2 a b) \<Rightarrow> Inl ValueError
      | Some _ \<Rightarrow> Inl UnpicklingError)"

definition load_chars_vocab :: "('c, 'v) fs \<Rightarrow> py_error + ('c list \<times> 'c vocab)" where
  "load_chars_vocab fs =
     (case fs CharsVocabPkl of
        None \<Rightarrow> Inl FileNotFoundError
      | Some (Pickle2 chars vocab) \<Rightarrow> Inr (chars, vocab)
      | Some (Pickle3 a b c) \<Rightarrow> Inl ValueError
      | Some _ \<Rightarrow> Inl UnpicklingError)"

definition saver_save :: "('c, 'v) fs \<Rightarrow> ('v, 's, 'b, 'g) session \<Rightarrow> nat \<Rightarrow> ('c, 'v) fs" where
  "saver_save fs sn global_step =
     fs(ModelCkpt global_step \<mapsto> SavedVariables (vars sn) (lr sn),
        CheckpointIndex \<mapsto> CheckpointState global_step)"

text \<open>
  \<^verbatim>\<open>tf.train.get_checkpoint_state(save_dir)\<close>: the recorded checkpoint, or \<^verbatim>\<open>None\<close> when the
  directory has no file \<^verbatim>\<open>checkpoint\<close>.
\<close>

definition get_checkpoint_state :: "('c, 'v) fs \<Rightarrow> nat option" where
  "get_checkpoint_state fs =
     (case fs CheckpointIndex of Some (CheckpointState n) \<Rightarrow> Some n | _ \<Rightarrow> None)"

definition saver_restore ::
  "('c, 'v) fs \<Rightarrow> nat \<Rightarrow> ('v, 's, 'b, 'g) session \<Rightarrow> py_error + ('v, 's, 'b, 'g) session" where
  "saver_restore fs n sn =
     (case fs (ModelCkpt n) of
        Some (SavedVariables v rate) \<Rightarrow> Inr (sn\<lparr>vars := v, lr := rate\<rparr>)
      | _ \<Rightarrow> Inl FrameworkError)"

subsection \<open>The cells\<close>

text \<open>
  What the cells act on: the save directory, the framework's graph-level seed, the
  state of NumPy's generator and the console.
\<close>

record ('c, 'v) world =
  files :: "('c, 'v) fs"
  tf_seed :: "nat option"
  np_rng :: rng
  console :: "'c list list"

text \<open>
  Lines 226-249. The loader of line 237 is an argument. Modelled from the spec: line 241,
  "Initialize the RNN model", is missing; it is the constructor call with the cell's
  dimensions in training mode.
\<close>

definition save_config ::
  "('v, 's, 'b, 'g, 'f) framework \<Rightarrow> int \<Rightarrow> int \<Rightarrow> ('b, 'c) TextLoader \<Rightarrow> ('c, 'v) world
     \<Rightarrow> ('c, 'v) world \<times> (py_error + Model)" where
  "save_config F batch_size seq_length ld w =
     (let w1 = w\<lparr>tf_seed := Some 100\<rparr>;
          vocab_size = loader_vocab_size ld
      in case Model_init F batch_size seq_length vocab_size True of
           Inl err \<Rightarrow> (w1, Inl err)
         | Inr model \<Rightarrow>
             (w1\<lparr>files := (files w1)
                   (ConfigPkl \<mapsto> Pickle3 batch_size seq_length vocab_size,
                    CharsVocabPkl \<mapsto> Pickle2 (loader_chars ld) (loader_vocab ld))\<rparr>,
              Inr model))"

text \<open>
  Lines 272-301: initialize the variables, assign the learning rate once, run the
  epochs, save the variables under the step number \<^verbatim>\<open>e * num_batches + b\<close>.
\<close>

definition train ::
  "('v, 's, 'b, 'g, 'f) framework \<Rightarrow> Model \<Rightarrow> nat \<Rightarrow> ('b, 'c) TextLoader \<Rightarrow> ('c, 'v) world
     \<Rightarrow> ('c, 'v) world \<times> (py_error + ('v, 's, 'b, 'g, 'c) train_vars)" where
  "train F model num_epochs ld w =
     (let sess0 = init_session F (tf_seed w);
          sess1 = sess0\<lparr>lr := 2 / 1000\<rparr>;
          tv0 = \<lparr>sess = sess1, data_loader = ld, losses = [], e_var = None, b_var = None\<rparr>
      in case epoch_loop F model [0..<num_epochs] tv0 of
           Inl err \<Rightarrow> (w, Inl err)
         | Inr tv \<Rightarrow>
             (case e_var tv of
                None \<Rightarrow> (w, Inl NameError)
              | Some e \<Rightarrow>
                  (case b_var tv of
                     None \<Rightarrow> (w, Inl NameError)
                   | Some b \<Rightarrow>
                       (w\<lparr>files := saver_save (files w) (sess tv)
                                     (e * num_batches (data_loader tv) + b)\<rparr>,
                        Inr tv))))"

text \<open>
  Lines 349-381, the function \<^verbatim>\<open>sample(n, prime)\<close>. Modelled from the spec: line 363,
  "Initialize the model", is the constructor call with training mode disabled, and
  line 375, "Sample", is \<^verbatim>\<open>sample_test = model.sample(sess, chars, vocab, n, prime)\<close>.
  The result is the world left behind and the exception raised, if any. When
  \<^verbatim>\<open>Model.sample\<close> raises, the draws it made before are not tracked.
\<close>

definition sample ::
  "('v, 's, 'b, 'g, 'f) framework \<Rightarrow> nat \<Rightarrow> 'c list \<Rightarrow> ('c, 'v) world
     \<Rightarrow> ('c, 'v) world \<times> py_error option" where
  "sample F n prime w =
     (let w1 = w\<lparr>tf_seed := Some 100\<rparr>
      in case load_config (files w1) of
           Inl err \<Rightarrow> (w1, Some err)
         | Inr (batch_size, seq_length, vocab_size) \<Rightarrow>
      (case load_chars_vocab (files w1) of
           Inl err \<Rightarrow> (w1, Some err)
         | Inr (chars, vocab) \<Rightarrow>
      (case Model_init F batch_size seq_length vocab_size False of
           Inl err \<Rightarrow> (w1, Some err)
         | Inr model \<Rightarrow>
      (let sess0 = init_session F (tf_seed w1)
       in case get_checkpoint_state (files w1) of
            None \<Rightarrow> (w1, None)
          | Some ckpt \<Rightarrow>
      (case saver_restore (files w1) ckpt sess0 of
           Inl err \<Rightarrow> (w1, Some err)
         | Inr sess1 \<Rightarrow>
      (case Model_sample (numpy_ops F) (tf_forward F (vars sess1)) (tf_zero_state F 1)
              chars vocab n prime (np_rng w1) of
           Inl err \<Rightarrow> (w1, Some err)
         | Inr (sample_test, g') \<Rightarrow>
             (w1\<lparr>np_rng := g',
                 files := (files w1)(SampleTxt \<mapsto> Utf8Text sample_test),
                 console := console w1 @ [sample_test]\<rparr>,
              None)))))))"


subsection \<open>The trainer in the specification's words\<close>

text \<open>
  Section 4.2 of the specification, written directly. \<open>spec_log\<close>: for each batch in
  order, run the forward pass from the carried state, compute the gradients, clip their
  global norm to 5, apply the Adam update with the fixed rate, and carry the returned
  state to the next batch. \<open>spec_epochs\<close>: every epoch starts from the zero state and
  runs all batches; the parameters carry over. Both list what each run was fed and
  returned, and are compared with the loops below.
\<close>

fun spec_log ::
  "('v, 's, 'b, 'g, 'f) framework \<Rightarrow> real \<Rightarrow> 'v \<Rightarrow> 's \<Rightarrow> 'b list
     \<Rightarrow> ('v, 's, 'b, 'g) run_record list" where
  "spec_log F rate v state [] = []"
| "spec_log F rate v state (batch # rest) =
     (case tf_cost F v state batch of
        (loss, state') \<Rightarrow>
          (let grads = fst (tf_clip_by_global_norm F (tf_gradients F v state batch) 5);
               v' = tf_adam F rate grads v
           in \<lparr>vars_before = v, fed_state = state, fed_batch = batch, used_lr = rate,
               applied_grads = grads, vars_after = v', got_loss = loss, got_state = state'\<rparr>
              # spec_log F rate v' state' rest))"

fun spec_epochs ::
  "('v, 's, 'b, 'g, 'f) framework \<Rightarrow> 's \<Rightarrow> real \<Rightarrow> 'v \<Rightarrow> nat \<Rightarrow> 'b list
     \<Rightarrow> ('v, 's, 'b, 'g) run_record list" where
  "spec_epochs F zero rate v 0 bs = []"
| "spec_epochs F zero rate v (Suc n) bs =
     (let epoch = spec_log F rate v zero bs
      in epoch @ spec_epochs F zero rate (last (v # map vars_after epoch)) n bs)"

subsection \<open>Single and double precision arithmetic\<close>

text \<open>
  A finite float is the real number it denotes. \<open>round_even p x\<close> is the real with at
  most \<open>p\<close> significant bits nearest to \<open>x\<close>, ties going to the even significand:
  the rounding of single precision for \<open>p = 24\<close> and of double precision for \<open>p = 53\<close>.
  The exponent is not bounded, so this is the arithmetic of floats as long as no
  result overflows.
\<close>

definition round_half_even :: "real \<Rightarrow> int" where
  "round_half_even q =
     (let f = \<lfloor>q\<rfloor>
      in if q - of_int f < 1 / 2 then f
         else if 1 / 2 < q - of_int f then f + 1
         else if even f then f else f + 1)"

definition round_even :: "nat \<Rightarrow> real \<Rightarrow> real" where
  "round_even p x =
     (if x = 0 then 0
      else (let u = 2 powr (of_int \<lfloor>log 2 \<bar>x\<bar>\<rfloor> - (real p - 1))
            in of_int (round_half_even (x / u)) * u))"

definition float32_add :: "real \<Rightarrow> real \<Rightarrow> real" where
  "float32_add a b = round_even 24 (a + b)"

text \<open>
  The summation of \<^verbatim>\<open>np.sum\<close> over a contiguous array: pairwise. Fewer than 8 entries
  are added one after the other; up to 128 entries are added into 8 running sums,
  entry \<open>i\<close> into sum \<open>i mod 8\<close>, the 8 sums are added as a balanced tree, and the
  entries after the last full block of 8 are added one after the other; a longer array
  is split at about half its length, at a multiple of 8.
\<close>

function accumulate8 :: "('f \<Rightarrow> 'f \<Rightarrow> 'f) \<Rightarrow> 'f list \<Rightarrow> 'f list \<Rightarrow> 'f list" where
  "accumulate8 add r xs =
     (if length xs < 8 then r
      else accumulate8 add (map2 add r (take 8 xs)) (drop 8 xs))"
  by pat_completeness auto
termination
  by (relation "measure (\<lambda>(add, r, xs). length xs)") auto

declare accumulate8.simps [simp del]

function pairwise_sum :: "('f \<Rightarrow> 'f \<Rightarrow> 'f) \<Rightarrow> 'f \<Rightarrow> 'f list \<Rightarrow> 'f" where
  "pairwise_sum add zero a =
     (let n = length a
      in if n < 8 then foldl add zero a
         else if n \<le> 128 then
           (let k = n - n mod 8;
                r = accumulate8 add (take 8 a) (drop 8 (take k a));
                res = add (add (add (r ! 0) (r ! 1)) (add (r ! 2) (r ! 3)))
                          (add (add (r ! 4) (r ! 5)) (add (r ! 6) (r ! 7)))
            in foldl add res (drop k a))
         else
           (let n2 = n div 2 - (n div 2) mod 8
            in add (pairwise_sum add zero (take n2 a)) (pairwise_sum add zero (drop n2 a))))"
  by pat_completeness auto
termination
  by (relation "measure (\<lambda>(add, zero, a). length a)") auto

declare pairwise_sum.simps [simp del]

text \<open>
  NumPy on an array of single precision floats, as \<^verbatim>\<open>probs[0]\<close> is: sums are rounded to
  single precision, \<^verbatim>\<open>np.sum\<close> adds the pairwise sum to its initial value 0, the
  product with the double precision draw is rounded to double precision, and floats
  compare as the numbers they denote.
\<close>

definition float32_numpy :: "real numpy" where
  "float32_numpy =
     \<lparr>np_add = float32_add,
      np_sum = (\<lambda>a. float32_add 0 (pairwise_sum float32_add 0 a)),
      np_scale = (\<lambda>r s. round_even 53 (r * s)),
      np_less = (<)\<rparr>"

subsection \<open>A small framework and save directories for the examples\<close>

text \<open>
  A framework with one real parameter, a counter as recurrent state, numbers as
  batches and lists of reals as gradients: it accepts exactly the positive dimensions,
  its distribution is uniform over two characters, its gradient is always \<open>[6, 8]\<close>,
  its clipping scales a list of norm \<open>n\<close> by the ceiling over the larger of \<open>n\<close> and the
  ceiling, and its floats are single precision.
\<close>

definition example_framework :: "(real, nat, nat, real list, real) framework" where
  "example_framework =
     \<lparr>tf_accepts = (\<lambda>b s v. 0 < b \<and> 0 < s \<and> 0 < v),
      tf_init = (\<lambda>seed. 0),
      tf_zero_state = (\<lambda>b. 0),
      tf_forward = (\<lambda>v state i. ([1 / 2, 1 / 2], Suc state)),
      tf_cost = (\<lambda>v state batch. (Finite (real batch), Suc state)),
      tf_gradients = (\<lambda>v state batch. [6, 8]),
      tf_clip_by_global_norm =
        (\<lambda>grads c. (map (\<lambda>x. x * c / max (sqrt (\<Sum>x\<leftarrow>grads. x\<^sup>2)) c) grads,
                     sqrt (\<Sum>x\<leftarrow>grads. x\<^sup>2))),
      tf_adam = (\<lambda>rate grads v. v - rate * sum_list grads),
      numpy_ops = float32_numpy\<rparr>"

definition example_loader :: "(nat, char) TextLoader" where
  "example_loader =
     \<lparr>batches = [0, 1], pointer = 0, loader_chars = ''ab'',
      loader_vocab = [CHR ''a'' \<mapsto> 0, CHR ''b'' \<mapsto> 1], loader_vocab_size = 2\<rparr>"

definition example_model :: Model where
  "example_model =
     \<lparr>graph_batch_size = 32, graph_seq_length = 50, graph_vocab_size = 2,
      rnn_size = 128, num_layers = 1\<rparr>"

text \<open>
  Three states of NumPy's generator: one whose draws are all 0, one whose draws are all
  \<open>(2^52 + 1) / 2^53\<close>, just above one half, and one whose draws are all
  \<open>(2^53 - 1) / 2^53\<close>, the largest draw there is.
\<close>

definition low_draws :: rng where
  "low_draws = (\<lambda>k. 0)"

definition high_draws :: rng where
  "high_draws = (\<lambda>k. 2 ^ 52 + 1)"

definition top_draws :: rng where
  "top_draws = (\<lambda>k. 2 ^ 53 - 1)"

text \<open>
  Eight single precision weights, non-negative and of positive sum: 1 and seven times
  \<open>2^-24\<close>, half the distance from 1 to the next float.
\<close>

definition rounding_weights :: "real list" where
  "rounding_weights =
     [1, 1 / 2 ^ 24, 1 / 2 ^ 24, 1 / 2 ^ 24, 1 / 2 ^ 24, 1 / 2 ^ 24, 1 / 2 ^ 24, 1 / 2 ^ 24]"

text \<open>An empty save directory, with the generator in state \<open>g\<close>.\<close>

definition empty_world :: "rng \<Rightarrow> (char, real) world" where
  "empty_world g = \<lparr>files = Map.empty, tf_seed = None, np_rng = g, console = []\<rparr>"

text \<open>The save directory after the two pickle files were written and before training.\<close>

definition untrained_world :: "rng \<Rightarrow> (char, real) world" where
  "untrained_world g =
     \<lparr>files = [ConfigPkl \<mapsto> Pickle3 32 50 2,
               CharsVocabPkl \<mapsto> Pickle2 ''ab'' [CHR ''a'' \<mapsto> 0, CHR ''b'' \<mapsto> 1]],
      tf_seed = None, np_rng = g, console = []\<rparr>"

text \<open>The save directory after training saved a checkpoint at step 1.\<close>

definition trained_world :: "rng \<Rightarrow> (char, real) world" where
  "trained_world g =
     \<lparr>files = [ConfigPkl \<mapsto> Pickle3 32 50 2,
               CharsVocabPkl \<mapsto> Pickle2 ''ab'' [CHR ''a'' \<mapsto> 0, CHR ''b'' \<mapsto> 1],
               ModelCkpt 1 \<mapsto> SavedVariables 7 (2 / 1000),
               CheckpointIndex \<mapsto> CheckpointState 1],
      tf_seed = None, np_rng = g, console = []\<rparr>"




section \<open>Properties\<close>

subsection \<open>The binary search and the pick\<close>

lemma bisect_left_bounds:
  "lo \<le> hi \<Longrightarrow> lo \<le> bisect_left N a v lo hi \<and> bisect_left N a v lo hi \<le> hi"
proof (induction N a v lo hi rule: bisect_left.induct)
  case (1 N a v lo hi)
  show ?case
  proof (cases "lo < hi")
    case False
    then have "bisect_left N a v lo hi = lo"
      by (subst bisect_left.simps) simp
    with "1.prems" show ?thesis by simp
  next
    case True
    define mid where "mid = lo + (hi - lo) div 2"
    have mid: "lo \<le> mid" "mid < hi"
      using True by (auto simp: mid_def)
    show ?thesis
    proof (cases "np_less N (a ! mid) v")
      case less: True
      have "Suc mid \<le> bisect_left N a v (Suc mid) hi \<and> bisect_left N a v (Suc mid) hi \<le> hi"
        using "1.IH"(1) [OF True mid_def less] mid by simp
      with True less mid show ?thesis
        by (simp add: bisect_left.simps [of N a v lo hi] mid_def [symmetric])
    next
      case nless: False
      have "lo \<le> bisect_left N a v lo mid \<and> bisect_left N a v lo mid \<le> mid"
        using "1.IH"(2) [OF True mid_def nless] mid by simp
      with True nless mid show ?thesis
        by (simp add: bisect_left.simps [of N a v lo hi] mid_def [symmetric])
    qed
  qed
qed

lemma bisect_left_interval:
  "lo \<le> hi \<Longrightarrow>
   (lo < bisect_left N a v lo hi \<longrightarrow> np_less N (a ! (bisect_left N a v lo hi - 1)) v) \<and>
   (bisect_left N a v lo hi < hi \<longrightarrow> \<not> np_less N (a ! bisect_left N a v lo hi) v)"
proof (induction N a v lo hi rule: bisect_left.induct)
  case (1 N a v lo hi)
  show ?case
  proof (cases "lo < hi")
    case False
    then have "bisect_left N a v lo hi = lo"
      by (subst bisect_left.simps) simp
    with "1.prems" False show ?thesis by simp
  next
    case True
    define mid where "mid = lo + (hi - lo) div 2"
    have mid: "lo \<le> mid" "mid < hi"
      using True by (auto simp: mid_def)
    show ?thesis
    proof (cases "np_less N (a ! mid) v")
      case less: True
      define k where "k = bisect_left N a v (Suc mid) hi"
      have eq: "bisect_left N a v lo hi = k"
        using True less by (simp add: bisect_left.simps [of N a v lo hi] mid_def [symmetric] k_def)
      have b: "Suc mid \<le> k" "k \<le> hi"
        using bisect_left_bounds [of "Suc mid" hi N a v] mid by (simp_all add: k_def)
      have ih: "(Suc mid < k \<longrightarrow> np_less N (a ! (k - 1)) v) \<and> (k < hi \<longrightarrow> \<not> np_less N (a ! k) v)"
        using "1.IH"(1) [OF True mid_def less] mid by (simp add: k_def)
      have "np_less N (a ! (k - 1)) v"
      proof (cases "k = Suc mid")
        case True
        then show ?thesis using less by simp
      next
        case False
        with b ih show ?thesis by simp
      qed
      with ih show ?thesis unfolding eq by simp
    next
      case nless: False
      define k where "k = bisect_left N a v lo mid"
      have eq: "bisect_left N a v lo hi = k"
        using True nless by (simp add: bisect_left.simps [of N a v lo hi] mid_def [symmetric] k_def)
      have b: "lo \<le> k" "k \<le> mid"
        using bisect_left_bounds [of lo mid N a v] mid by (simp_all add: k_def)
      have ih: "(lo < k \<longrightarrow> np_less N (a ! (k - 1)) v) \<and> (k < mid \<longrightarrow> \<not> np_less N (a ! k) v)"
        using "1.IH"(2) [OF True mid_def nless] mid by (simp add: k_def)
      have "\<not> np_less N (a ! k) v"
      proof (cases "k = mid")
        case True
        then show ?thesis using nless by simp
      next
        case False
        with b ih show ?thesis by simp
      qed
      with ih show ?thesis unfolding eq by simp
    qed
  qed
qed

lemma length_cumsum_from: "length (cumsum_from N acc ws) = length ws"
  by (induction ws arbitrary: acc) simp_all

lemma length_cumsum: "length (cumsum N ws) = length ws"
  by (cases ws) (simp_all add: length_cumsum_from)

lemma fst_weighted_pick:
  "fst (weighted_pick N w g)
     = searchsorted N (cumsum N w) (np_scale N (fst (rand g)) (np_sum N w))"
  by (simp add: weighted_pick_def Let_def split: prod.splits)

lemma snd_weighted_pick: "snd (weighted_pick N w g) = snd (rand g)"
  by (simp add: weighted_pick_def Let_def split: prod.splits)

lemma searchsorted_all_less:
  assumes "\<And>i. i < length a \<Longrightarrow> np_less N (a ! i) v"
  shows "searchsorted N a v = length a"
proof -
  define k where "k = bisect_left N a v 0 (length a)"
  have "k \<le> length a"
    using bisect_left_bounds [of 0 "length a" N a v] by (simp add: k_def)
  moreover have "k < length a \<longrightarrow> \<not> np_less N (a ! k) v"
    using bisect_left_interval [of 0 "length a" N a v] by (simp add: k_def)
  ultimately have "k = length a" using assms [of k] by auto
  then show ?thesis by (simp add: searchsorted_def k_def)
qed

lemma weighted_pick_interval:
  "fst (weighted_pick N w g) \<le> length w \<and>
   (0 < fst (weighted_pick N w g) \<longrightarrow>
      np_less N (cumsum N w ! (fst (weighted_pick N w g) - 1))
        (np_scale N (fst (rand g)) (np_sum N w))) \<and>
   (fst (weighted_pick N w g) < length w \<longrightarrow>
      \<not> np_less N (cumsum N w ! fst (weighted_pick N w g))
        (np_scale N (fst (rand g)) (np_sum N w)))"
  using bisect_left_bounds [of 0 "length (cumsum N w)" N "cumsum N w"
      "np_scale N (fst (rand g)) (np_sum N w)"]
    bisect_left_interval [of 0 "length (cumsum N w)" N "cumsum N w"
      "np_scale N (fst (rand g)) (np_sum N w)"]
  by (simp add: fst_weighted_pick searchsorted_def length_cumsum)

subsection \<open>Rounding\<close>

lemma round_even_scaled:
  assumes "0 < x" and "2 ^ (p - 1) \<le> x * 2 ^ m" and "x * 2 ^ m < 2 ^ p" and "0 < p"
  shows "round_even p x = of_int (round_half_even (x * 2 ^ m)) / 2 ^ m"
proof -
  have "\<lfloor>log 2 x\<rfloor> = int p - 1 - int m"
  proof -
    have "2 powr (real_of_int (int p - 1 - int m)) \<le> x"
    proof -
      from assms(4) obtain q where q: "p = Suc q" by (cases p) simp_all
      have "2 powr (real_of_int (int p - 1 - int m)) = 2 ^ (p - 1) / 2 ^ m"
        by (simp add: q powr_diff powr_realpow)
      also have "\<dots> \<le> x" using assms(2) by (simp add: field_simps)
      finally show ?thesis .
    qed
    moreover have "x < 2 powr (real_of_int (int p - 1 - int m + 1))"
    proof -
      have "2 powr (real_of_int (int p - 1 - int m + 1)) = 2 ^ p / 2 ^ m"
        by (simp add: powr_diff powr_realpow)
      moreover have "x < 2 ^ p / 2 ^ m" using assms(3) by (simp add: field_simps)
      ultimately show ?thesis by simp
    qed
    ultimately show ?thesis
      using assms(1) by (simp add: floor_log_eq_powr_iff)
  qed
  then have "of_int \<lfloor>log 2 \<bar>x\<bar>\<rfloor> - (real p - 1) = - real m"
    using assms(1) by simp
  then have "2 powr (of_int \<lfloor>log 2 \<bar>x\<bar>\<rfloor> - (real p - 1)) = 1 / 2 ^ m"
    by (simp only: powr_minus powr_realpow) (simp add: powr_realpow field_simps)
  then show ?thesis
    using assms(1) by (simp add: round_even_def Let_def)
qed

lemma f32_a: "float32_add 1 (1 / 16777216) = 1"
  using round_even_scaled [of "1 + 1 / 16777216" 24 23]
  by (simp add: float32_add_def round_half_even_def)

lemma f32_b: "float32_add (1 / 16777216) (1 / 16777216) = 1 / 8388608"
  using round_even_scaled [of "1 / 8388608" 24 46]
  by (simp add: float32_add_def round_half_even_def)

lemma f32_c: "float32_add 1 (1 / 8388608) = 8388609 / 8388608"
  using round_even_scaled [of "8388609 / 8388608" 24 23]
  by (simp add: float32_add_def round_half_even_def)

lemma f32_d: "float32_add (1 / 8388608) (1 / 8388608) = 1 / 4194304"
  using round_even_scaled [of "1 / 4194304" 24 45]
  by (simp add: float32_add_def round_half_even_def)

lemma f32_e: "float32_add (8388609 / 8388608) (1 / 4194304) = 8388611 / 8388608"
  using round_even_scaled [of "8388611 / 8388608" 24 23]
  by (simp add: float32_add_def round_half_even_def)

lemma f32_f: "float32_add 0 (8388611 / 8388608) = 8388611 / 8388608"
  using round_even_scaled [of "8388611 / 8388608" 24 23]
  by (simp add: float32_add_def round_half_even_def)

lemma cumsum_rounding_weights:
  "cumsum float32_numpy rounding_weights = [1, 1, 1, 1, 1, 1, 1, 1]"
  by (simp add: rounding_weights_def float32_numpy_def f32_a)

lemma sum_rounding_weights: "np_sum float32_numpy rounding_weights = 8388611 / 8388608"
  by (simp add: rounding_weights_def float32_numpy_def pairwise_sum.simps [of _ _ "[_, _, _, _, _, _, _, _]"]
      accumulate8.simps [of _ _ "[]"] f32_a f32_b f32_c f32_d f32_e f32_f)

lemma scaled_top_draw:
  "np_scale float32_numpy (fst (rand top_draws)) (8388611 / 8388608)
     = 4503601237983231 / 4503599627370496"
  using round_even_scaled [of "75557890747512079253501 / 75557863725914323419136" 53 52]
  by (simp add: float32_numpy_def rand_def top_draws_def round_half_even_def)

lemma pick_rounding_weights:
  "fst (weighted_pick float32_numpy rounding_weights top_draws) = 8"
proof -
  have "searchsorted float32_numpy [1, 1, 1, 1, 1, 1, 1, 1]
      (4503601237983231 / 4503599627370496 :: real) = length [1, 1, 1, 1, 1, 1, 1, 1 :: real]"
  proof (rule searchsorted_all_less)
    fix i assume "i < length [1, 1, 1, 1, 1, 1, 1, 1 :: real]"
    then have "[1, 1, 1, 1, 1, 1, 1, 1 :: real] ! i = 1"
      by (simp add: nth_Cons' )
    then show "np_less float32_numpy ([1, 1, 1, 1, 1, 1, 1, 1] ! i)
        (4503601237983231 / 4503599627370496)"
      by (simp add: float32_numpy_def)
  qed
  moreover have "fst (weighted_pick float32_numpy rounding_weights top_draws)
      = searchsorted float32_numpy [1, 1, 1, 1, 1, 1, 1, 1]
          (4503601237983231 / 4503599627370496)"
    by (simp only: fst_weighted_pick cumsum_rounding_weights sum_rounding_weights
        scaled_top_draw)
  ultimately show ?thesis by simp
qed

lemma rhe_int: "round_half_even (of_int n) = n"
  by (simp add: round_half_even_def)

lemma r24_1: "round_even 24 1 = 1"
  using round_even_scaled [of 1 24 23] by (simp add: round_half_even_def)

lemma r24_tie: "round_even 24 (1 + 1 / 2 ^ 24) = 1"
  using round_even_scaled [of "1 + 1 / 2 ^ 24" 24 23] by (simp add: round_half_even_def)

lemma bisect_two:
  "bisect_left N [a, b] v 0 (Suc (Suc 0))
     = (if np_less N b v then 2 else if np_less N a v then 1 else 0)"
  by (simp add: bisect_left.simps [of _ _ _ 0 "Suc (Suc 0)"] bisect_left.simps [of _ _ _ 0 "Suc 0"]
      bisect_left.simps [of _ _ _ 0 0] bisect_left.simps [of _ _ _ "Suc (Suc 0)" "Suc (Suc 0)"]
      bisect_left.simps [of _ _ _ "Suc 0" "Suc 0"])

lemma f32_half: "float32_add 0 (1 / 2) = 1 / 2"
  using round_even_scaled [of "1 / 2" 24 24]
  by (simp add: float32_add_def round_half_even_def)

lemma f32_one: "float32_add (1 / 2) (1 / 2) = 1"
  using round_even_scaled [of 1 24 23]
  by (simp add: float32_add_def round_half_even_def)

lemma f32_zero_one: "float32_add 0 1 = 1"
  using round_even_scaled [of 1 24 23]
  by (simp add: float32_add_def round_half_even_def)

lemma sum_uniform: "np_sum float32_numpy [1 / 2, 1 / 2] = 1"
  by (simp add: float32_numpy_def pairwise_sum.simps [of _ _ "[_, _]"] f32_half f32_one f32_zero_one)

lemma cumsum_uniform: "cumsum float32_numpy [1 / 2, 1 / 2] = [1 / 2, 1]"
  by (simp add: float32_numpy_def f32_one)

lemma pick_low: "weighted_pick float32_numpy [1 / 2, 1 / 2] low_draws = (0, low_draws)"
proof -
  have "np_scale float32_numpy (fst (rand low_draws)) 1 = 0"
    by (simp add: float32_numpy_def rand_def low_draws_def round_even_def)
  then have "fst (weighted_pick float32_numpy [1 / 2, 1 / 2] low_draws)
      = searchsorted float32_numpy [1 / 2, 1] 0"
    by (simp only: fst_weighted_pick sum_uniform cumsum_uniform)
  then have "fst (weighted_pick float32_numpy [1 / 2, 1 / 2] low_draws) = 0"
    by (simp add: searchsorted_def bisect_two float32_numpy_def)
  moreover have "snd (weighted_pick float32_numpy [1 / 2, 1 / 2] low_draws) = low_draws"
    by (simp add: snd_weighted_pick rand_def low_draws_def)
  ultimately show ?thesis by (simp add: prod_eq_iff)
qed

lemma pick_high: "weighted_pick float32_numpy [1 / 2, 1 / 2] high_draws = (1, high_draws)"
proof -
  have "np_scale float32_numpy (fst (rand high_draws)) 1
      = 4503599627370497 / 9007199254740992"
    using round_even_scaled [of "4503599627370497 / 9007199254740992" 53 53]
    by (simp add: float32_numpy_def rand_def high_draws_def round_half_even_def)
  then have "fst (weighted_pick float32_numpy [1 / 2, 1 / 2] high_draws)
      = searchsorted float32_numpy [1 / 2, 1] (4503599627370497 / 9007199254740992)"
    by (simp only: fst_weighted_pick sum_uniform cumsum_uniform)
  then have "fst (weighted_pick float32_numpy [1 / 2, 1 / 2] high_draws) = 1"
    by (simp add: searchsorted_def bisect_two float32_numpy_def)
  moreover have "snd (weighted_pick float32_numpy [1 / 2, 1 / 2] high_draws) = high_draws"
    by (simp add: snd_weighted_pick rand_def high_draws_def)
  ultimately show ?thesis by (simp add: prod_eq_iff)
qed

subsection \<open>The sampler\<close>

lemma warm_up_spec:
  "set cs \<subseteq> dom vocab \<Longrightarrow> warm_up fwd vocab s cs = Inr (spec_warm_state fwd vocab s cs)"
  unfolding spec_warm_state_def
  by (induction cs arbitrary: s) auto

lemma warm_up_keys: "warm_up fwd vocab s cs = Inr s' \<Longrightarrow> set cs \<subseteq> dom vocab"
  by (induction cs arbitrary: s) (auto split: option.splits)

lemma warm_up_unknown:
  "\<not> set cs \<subseteq> dom vocab \<Longrightarrow> warm_up fwd vocab s cs = Inl KeyError"
  by (induction cs arbitrary: s) (auto split: option.splits)


lemma length_spec_generated: "length (spec_generated N fwd chars vocab n state c g) = n"
  by (induction n arbitrary: state c g) (simp_all split: prod.splits)

lemma generate_spec:
  "spec_lookups_ok N fwd chars vocab n state c g \<Longrightarrow>
   \<exists>g'. generate N fwd chars vocab n state c ret g
      = Inr (ret @ spec_generated N fwd chars vocab n state c g, g')"
proof (induction n arbitrary: state c ret g)
  case 0
  then show ?case by simp
next
  case (Suc n)
  from Suc.prems obtain i where i: "vocab c = Some i"
    by (auto split: option.splits)
  obtain p state' where f: "fwd state i = (p, state')" by (cases "fwd state i")
  obtain k g1 where w: "weighted_pick N p g = (k, g1)" by (cases "weighted_pick N p g")
  from Suc.prems i f w have k: "k < length chars"
    and ok: "spec_lookups_ok N fwd chars vocab n state' (chars ! k) g1"
    by simp_all
  from Suc.IH [OF ok, of "ret @ [chars ! k]"]
  obtain g' where "generate N fwd chars vocab n state' (chars ! k) (ret @ [chars ! k]) g1
      = Inr ((ret @ [chars ! k]) @ spec_generated N fwd chars vocab n state' (chars ! k) g1, g')"
    by blast
  with i f w k show ?case by (simp add: py_index_def)
qed

lemma generate_lookups:
  "generate N fwd chars vocab n state c ret g = Inr x \<Longrightarrow>
   spec_lookups_ok N fwd chars vocab n state c g"
proof (induction n arbitrary: state c ret g)
  case 0
  then show ?case by simp
next
  case (Suc n)
  from Suc.prems obtain i where i: "vocab c = Some i"
    by (auto split: option.splits)
  obtain p state' where f: "fwd state i = (p, state')" by (cases "fwd state i")
  obtain k g1 where w: "weighted_pick N p g = (k, g1)" by (cases "weighted_pick N p g")
  from Suc.prems i f w have k: "k < length chars"
    by (auto simp: py_index_def split: if_splits)
  with Suc.prems i f w
  have "generate N fwd chars vocab n state' (chars ! k) (ret @ [chars ! k]) g1 = Inr x"
    by (simp add: py_index_def)
  from Suc.IH [OF this] i f w k show ?case by simp
qed



lemma f32_q: "float32_add 0 (3 / 4) = 3 / 4"
  using round_even_scaled [of "3 / 4" 24 24]
  by (simp add: float32_add_def round_half_even_def)

lemma f32_r: "float32_add (3 / 4) (1 / 4) = 1"
  using round_even_scaled [of 1 24 23]
  by (simp add: float32_add_def round_half_even_def)

lemma pick_unlikely: "fst (weighted_pick float32_numpy [3 / 4, 1 / 4] top_draws) = 1"
proof -
  have "np_sum float32_numpy [3 / 4, 1 / 4] = 1"
    by (simp add: float32_numpy_def pairwise_sum.simps [of _ _ "[_, _]"] f32_q f32_r f32_zero_one)
  moreover have "cumsum float32_numpy [3 / 4, 1 / 4] = [3 / 4, 1]"
    by (simp add: float32_numpy_def f32_r)
  moreover have "np_scale float32_numpy (fst (rand top_draws)) 1
      = 9007199254740991 / 9007199254740992"
    using round_even_scaled [of "9007199254740991 / 9007199254740992" 53 53]
    by (simp add: float32_numpy_def rand_def top_draws_def round_half_even_def)
  ultimately have "fst (weighted_pick float32_numpy [3 / 4, 1 / 4] top_draws)
      = searchsorted float32_numpy [3 / 4, 1] (9007199254740991 / 9007199254740992)"
    by (simp only: fst_weighted_pick)
  then show ?thesis
    by (simp add: searchsorted_def bisect_two float32_numpy_def)
qed

text \<open>
  C9. With \<^verbatim>\<open>float32\<close> weights the index returned by \<open>weighted_pick\<close> can be the number of
  weights. For the eight weights \<open>1, 1 / 2 ^ 24, \<dots>, 1 / 2 ^ 24\<close>, non-negative and of positive sum,
  the running sums of \<^verbatim>\<open>np.cumsum\<close> all round to \<open>1\<close> while the pairwise \<^verbatim>\<open>np.sum\<close> is
  \<open>1 + 3 / 2 ^ 23\<close>; the draw \<open>(2 ^ 53 - 1) / 2 ^ 53\<close> scaled by that sum is above every running
  sum, so \<^verbatim>\<open>np.searchsorted\<close> returns \<open>8\<close> and \<^verbatim>\<open>chars[sample]\<close> raises \<open>IndexError\<close>, in
  the pick alone and in \<open>Model_sample\<close> generating one character.
\<close>

theorem weighted_pick_rounding_out_of_range:
  "list_all (\<lambda>w. 0 \<le> w) rounding_weights \<and> 0 < sum_list rounding_weights \<and>
   cumsum float32_numpy rounding_weights = [1, 1, 1, 1, 1, 1, 1, 1] \<and>
   np_sum float32_numpy rounding_weights = 1 + 3 / 2 ^ 23 \<and>
   fst (weighted_pick float32_numpy rounding_weights top_draws) = length rounding_weights \<and>
   py_index ''abcdefgh'' (fst (weighted_pick float32_numpy rounding_weights top_draws))
     = Inl IndexError \<and>
   Model_sample float32_numpy (\<lambda>state i. (rounding_weights, state)) () ''abcdefgh''
     [CHR ''a'' \<mapsto> 0] 1 ''a'' top_draws = Inl IndexError"
proof -
  have "weighted_pick float32_numpy rounding_weights top_draws
      = (8, snd (rand top_draws))"
    by (simp add: prod_eq_iff pick_rounding_weights snd_weighted_pick)
  then have "Model_sample float32_numpy (\<lambda>state i. (rounding_weights, state)) () ''abcdefgh''
     [CHR ''a'' \<mapsto> 0] 1 ''a'' top_draws = Inl IndexError"
    by (simp add: Model_sample_def py_last_def py_index_def)
  moreover have "list_all (\<lambda>w. 0 \<le> w) rounding_weights \<and> 0 < sum_list rounding_weights"
    by (simp add: rounding_weights_def)
  ultimately show ?thesis
    by (simp add: cumsum_rounding_weights sum_rounding_weights pick_rounding_weights
        py_index_def) (simp add: rounding_weights_def)
qed

text \<open>
  C10. With an empty prime the loop over \<^verbatim>\<open>prime[:-1]\<close> runs zero times and leaves the
  state as it is, and the method then fails with \<open>IndexError\<close> at \<^verbatim>\<open>prime[-1]\<close>, whatever
  the count, the vocabulary and the model are: nothing is generated or returned. The
  function \<open>sample\<close> of the last cell, called with an empty prime, leaves the files of
  the save directory and the console as they were.
\<close>

theorem sample_empty_prime:
  "warm_up fwd vocab zero (butlast []) = Inr zero \<and>
   py_last ([] :: 'c list) = Inl IndexError \<and>
   Model_sample N fwd zero chars vocab num [] g = Inl IndexError \<and>
   files (fst (sample F n [] w)) = files w \<and>
   console (fst (sample F n [] w)) = console w"
  by (simp add: Model_sample_def py_last_def sample_def Let_def
      split: sum.splits prod.splits option.splits)

text \<open>
  C1, as stated, fails on a prime with a character that is not a key of \<open>vocab\<close>: the
  lookup \<^verbatim>\<open>vocab[char]\<close> of the warm-up loop raises \<open>KeyError\<close>, also for a count of 0.
\<close>

theorem sample_unknown_char_counterexample:
  "Model_sample float32_numpy (\<lambda>s i. ([1], s)) () ''a'' [CHR ''a'' \<mapsto> 0] 0 ''ba'' (\<lambda>k. 0)
     = Inl KeyError"
  by (simp add: Model_sample_def)

text \<open>
  C1, amended. \<open>spec_lookups_ok\<close> says that in each of the \<open>num\<close> steps the current
  character is a key of \<open>vocab\<close> and the index picked is below the length of \<open>chars\<close>.
  \<^item> For a non-empty prime with the characters of \<^verbatim>\<open>prime[:-1]\<close> keys of \<open>vocab\<close> and the
    lookups of the \<open>num\<close> steps succeeding, \<open>Model_sample\<close> returns the prime followed by
    the characters \<open>spec_generated\<close>: the ones picked step by step, each fed back as the
    next input, starting from the state reached by feeding all characters of the prime
    but the last and from the last character of the prime.
  \<^item> Whenever \<open>Model_sample\<close> returns, the value returned is that string.
  \<^item> \<open>spec_generated\<close> has exactly \<open>num\<close> characters.
  \<^item> When a character of \<^verbatim>\<open>prime[:-1]\<close> is not a key of \<open>vocab\<close>, \<open>Model_sample\<close> raises
    \<open>KeyError\<close>.
  \<^item> The pick is weighted: the index \<open>k\<close> returned for weights \<open>w\<close> is where the draw,
    scaled by \<^verbatim>\<open>np.sum(w)\<close>, falls among the running sums of \<open>w\<close>: the running sum before
    \<open>k\<close> is below the scaled draw and the one at \<open>k\<close> is not. It is not the argmax: for
    the weights \<open>3/4, 1/4\<close> and the draw \<open>(2 ^ 53 - 1) / 2 ^ 53\<close> it is index 1.
  \<^item> With \<open>num = 0\<close>, a non-empty prime and the characters of \<^verbatim>\<open>prime[:-1]\<close> in \<open>vocab\<close>, the
    prime is returned unchanged, with the generator untouched.
  \<^item> For a prime of one character the warm-up loop does nothing and generation starts
    from the zero state and that character.
\<close>

theorem sample_prime_then_generated:
  "(prime \<noteq> [] \<and> set (butlast prime) \<subseteq> dom vocab \<and>
    spec_lookups_ok N fwd chars vocab num
      (spec_warm_state fwd vocab zero (butlast prime)) (last prime) g
    \<longrightarrow> (\<exists>g'. Model_sample N fwd zero chars vocab num prime g
          = Inr (prime @ spec_generated N fwd chars vocab num
                   (spec_warm_state fwd vocab zero (butlast prime)) (last prime) g, g'))) \<and>
   (Model_sample N fwd zero chars vocab num prime g = Inr (ret, rest)
    \<longrightarrow> ret = prime @ spec_generated N fwd chars vocab num
                (spec_warm_state fwd vocab zero (butlast prime)) (last prime) g) \<and>
   length (spec_generated N fwd chars vocab num state c g) = num \<and>
   (\<not> set (butlast prime) \<subseteq> dom vocab
    \<longrightarrow> Model_sample N fwd zero chars vocab num prime g = Inl KeyError) \<and>
   fst (weighted_pick N weights h) \<le> length weights \<and>
   (0 < fst (weighted_pick N weights h) \<longrightarrow>
      np_less N (cumsum N weights ! (fst (weighted_pick N weights h) - 1))
        (np_scale N (fst (rand h)) (np_sum N weights))) \<and>
   (fst (weighted_pick N weights h) < length weights \<longrightarrow>
      \<not> np_less N (cumsum N weights ! fst (weighted_pick N weights h))
        (np_scale N (fst (rand h)) (np_sum N weights))) \<and>
   fst (weighted_pick float32_numpy [3 / 4, 1 / 4] top_draws) = 1 \<and>
   (prime \<noteq> [] \<and> set (butlast prime) \<subseteq> dom vocab
    \<longrightarrow> Model_sample N fwd zero chars vocab 0 prime g = Inr (prime, g)) \<and>
   warm_up fwd vocab zero (butlast [c]) = Inr zero \<and>
   Model_sample N fwd zero chars vocab num [c] g = generate N fwd chars vocab num zero c [c] g"
proof -
  have a: "prime \<noteq> [] \<and> set (butlast prime) \<subseteq> dom vocab \<and>
      spec_lookups_ok N fwd chars vocab num
        (spec_warm_state fwd vocab zero (butlast prime)) (last prime) g
      \<longrightarrow> (\<exists>g'. Model_sample N fwd zero chars vocab num prime g
            = Inr (prime @ spec_generated N fwd chars vocab num
                     (spec_warm_state fwd vocab zero (butlast prime)) (last prime) g, g'))"
  proof
    assume h: "prime \<noteq> [] \<and> set (butlast prime) \<subseteq> dom vocab \<and>
      spec_lookups_ok N fwd chars vocab num
        (spec_warm_state fwd vocab zero (butlast prime)) (last prime) g"
    from generate_spec [of N fwd chars vocab num _ "last prime" g prime] h
    obtain g' where "generate N fwd chars vocab num
          (spec_warm_state fwd vocab zero (butlast prime)) (last prime) prime g
        = Inr (prime @ spec_generated N fwd chars vocab num
                 (spec_warm_state fwd vocab zero (butlast prime)) (last prime) g, g')"
      by blast
    with h show "\<exists>g'. Model_sample N fwd zero chars vocab num prime g
        = Inr (prime @ spec_generated N fwd chars vocab num
                 (spec_warm_state fwd vocab zero (butlast prime)) (last prime) g, g')"
      by (simp add: Model_sample_def warm_up_spec py_last_def)
  qed
  have b: "Model_sample N fwd zero chars vocab num prime g = Inr (ret, rest)
      \<longrightarrow> ret = prime @ spec_generated N fwd chars vocab num
                  (spec_warm_state fwd vocab zero (butlast prime)) (last prime) g"
  proof
    assume r: "Model_sample N fwd zero chars vocab num prime g = Inr (ret, rest)"
    then obtain st where w: "warm_up fwd vocab zero (butlast prime) = Inr st"
      by (auto simp: Model_sample_def split: sum.splits)
    from warm_up_keys [OF w] have keys: "set (butlast prime) \<subseteq> dom vocab" .
    from w warm_up_spec [OF keys, of fwd zero]
    have st: "st = spec_warm_state fwd vocab zero (butlast prime)" by simp
    from r w have ne: "prime \<noteq> []"
      by (auto simp: Model_sample_def py_last_def split: if_splits)
    from r w ne
    have gen: "generate N fwd chars vocab num st (last prime) prime g = Inr (ret, rest)"
      by (simp add: Model_sample_def py_last_def)
    from generate_lookups [OF gen]
    have ok: "spec_lookups_ok N fwd chars vocab num
        (spec_warm_state fwd vocab zero (butlast prime)) (last prime) g"
      by (simp add: st)
    from generate_spec [OF ok, of prime] gen
    show "ret = prime @ spec_generated N fwd chars vocab num
        (spec_warm_state fwd vocab zero (butlast prime)) (last prime) g"
      by (auto simp: st)
  qed
  have c: "length (spec_generated N fwd chars vocab num state c g) = num"
    by (rule length_spec_generated)
  have d: "\<not> set (butlast prime) \<subseteq> dom vocab
      \<longrightarrow> Model_sample N fwd zero chars vocab num prime g = Inl KeyError"
    by (simp add: Model_sample_def warm_up_unknown)
  have e: "fst (weighted_pick N weights h) \<le> length weights"
    using weighted_pick_interval [of N weights h] by simp
  have f: "0 < fst (weighted_pick N weights h) \<longrightarrow>
      np_less N (cumsum N weights ! (fst (weighted_pick N weights h) - 1))
        (np_scale N (fst (rand h)) (np_sum N weights))"
    using weighted_pick_interval [of N weights h] by simp
  have i: "fst (weighted_pick N weights h) < length weights \<longrightarrow>
      \<not> np_less N (cumsum N weights ! fst (weighted_pick N weights h))
        (np_scale N (fst (rand h)) (np_sum N weights))"
    using weighted_pick_interval [of N weights h] by simp
  have j: "fst (weighted_pick float32_numpy [3 / 4, 1 / 4] top_draws) = 1"
    by (rule pick_unlikely)
  have k: "prime \<noteq> [] \<and> set (butlast prime) \<subseteq> dom vocab
      \<longrightarrow> Model_sample N fwd zero chars vocab 0 prime g = Inr (prime, g)"
    by (simp add: Model_sample_def warm_up_spec py_last_def)
  have l: "warm_up fwd vocab zero (butlast [c]) = Inr zero" by simp
  have m: "Model_sample N fwd zero chars vocab num [c] g
      = generate N fwd chars vocab num zero c [c] g"
    by (simp add: Model_sample_def py_last_def)
  from a b c d e f i j k l m show ?thesis by (intro conjI)
qed

theorem sample_prime_then_generated_witness:
  "''ab'' \<noteq> [] \<and>
   set (butlast ''ab'') \<subseteq> dom [CHR ''a'' \<mapsto> 0, CHR ''b'' \<mapsto> 1 :: nat] \<and>
   spec_lookups_ok float32_numpy (\<lambda>s i. ([1 / 2, 1 / 2], s)) ''ab''
     [CHR ''a'' \<mapsto> 0, CHR ''b'' \<mapsto> 1] 2 () CHR ''b'' low_draws \<and>
   spec_generated float32_numpy (\<lambda>s i. ([1 / 2, 1 / 2], s)) ''ab''
     [CHR ''a'' \<mapsto> 0, CHR ''b'' \<mapsto> 1] 2 () CHR ''b'' low_draws = ''aa'' \<and>
   Model_sample float32_numpy (\<lambda>s i. ([1 / 2, 1 / 2], s)) () ''ab''
     [CHR ''a'' \<mapsto> 0, CHR ''b'' \<mapsto> 1] 2 ''ab'' low_draws = Inr (''abaa'', low_draws) \<and>
   Model_sample float32_numpy (\<lambda>s i. ([1 / 2, 1 / 2], s)) () ''ab''
     [CHR ''a'' \<mapsto> 0, CHR ''b'' \<mapsto> 1] 0 ''ab'' low_draws = Inr (''ab'', low_draws) \<and>
   0 < fst (weighted_pick float32_numpy [1 / 2, 1 / 2] high_draws) \<and>
   fst (weighted_pick float32_numpy [1 / 2, 1 / 2] high_draws) < length [1 / 2, 1 / 2 :: real] \<and>
   np_less float32_numpy (cumsum float32_numpy [1 / 2, 1 / 2] ! 0)
     (np_scale float32_numpy (fst (rand high_draws)) (np_sum float32_numpy [1 / 2, 1 / 2])) \<and>
   \<not> np_less float32_numpy (cumsum float32_numpy [1 / 2, 1 / 2] ! 1)
     (np_scale float32_numpy (fst (rand high_draws)) (np_sum float32_numpy [1 / 2, 1 / 2])) \<and>
   \<not> set (butlast ''ba'') \<subseteq> dom [CHR ''a'' \<mapsto> 0 :: nat] \<and>
   Model_sample float32_numpy (\<lambda>s i. ([1 / 2, 1 / 2], s)) () ''ab''
     [CHR ''a'' \<mapsto> 0] 2 ''ba'' low_draws = Inl KeyError"
proof -
  note ok = sample_prime_then_generated
    [where prime = "''ab''" and vocab = "[CHR ''a'' \<mapsto> 0, CHR ''b'' \<mapsto> 1]"
       and chars = "''ab''" and fwd = "\<lambda>s i. ([1 / 2, 1 / 2], s)" and zero = "()"
       and num = 2 and g = low_draws and N = float32_numpy and ret = "''abaa''"
       and rest = low_draws and weights = "[1 / 2, 1 / 2]" and h = high_draws
       and state = "()" and c = "CHR ''b''"]
  note bad = sample_prime_then_generated
    [where prime = "''ba''" and vocab = "[CHR ''a'' \<mapsto> 0]"
       and chars = "''ab''" and fwd = "\<lambda>s i. ([1 / 2, 1 / 2], s)" and zero = "()"
       and num = 2 and g = low_draws and N = float32_numpy and ret = "''abaa''"
       and rest = low_draws and weights = "[1 / 2, 1 / 2]" and h = high_draws
       and state = "()" and c = "CHR ''b''"]
  have l: "spec_lookups_ok float32_numpy (\<lambda>s i. ([1 / 2, 1 / 2], s)) ''ab''
     [CHR ''a'' \<mapsto> 0, CHR ''b'' \<mapsto> 1] 2 () CHR ''b'' low_draws"
    by (simp add: numeral_2_eq_2 pick_low)
  have s: "spec_generated float32_numpy (\<lambda>s i. ([1 / 2, 1 / 2], s)) ''ab''
     [CHR ''a'' \<mapsto> 0, CHR ''b'' \<mapsto> 1] 2 () CHR ''b'' low_draws = ''aa''"
    by (simp add: numeral_2_eq_2 pick_low)
  have m: "Model_sample float32_numpy (\<lambda>s i. ([1 / 2, 1 / 2], s)) () ''ab''
     [CHR ''a'' \<mapsto> 0, CHR ''b'' \<mapsto> 1] 2 ''ab'' low_draws = Inr (''abaa'', low_draws)"
    by (simp add: Model_sample_def py_last_def py_index_def numeral_2_eq_2 pick_low)
  from ok bad l s m show ?thesis
    by (simp add: spec_warm_state_def pick_high)
qed

subsection \<open>The training loops\<close>

lemma batch_loop_spec:
  "pointer (data_loader tv) + length ns \<le> length (batches (data_loader tv)) \<Longrightarrow>
   \<exists>tv'. batch_loop F ns state tv
       = Inr (last (state # map got_state
                (spec_log F (lr (sess tv)) (vars (sess tv)) state
                   (take (length ns) (drop (pointer (data_loader tv)) (batches (data_loader tv)))))), tv') \<and>
     run_log (sess tv') = run_log (sess tv) @
        spec_log F (lr (sess tv)) (vars (sess tv)) state
          (take (length ns) (drop (pointer (data_loader tv)) (batches (data_loader tv)))) \<and>
     vars (sess tv') = last (vars (sess tv) # map vars_after
        (spec_log F (lr (sess tv)) (vars (sess tv)) state
          (take (length ns) (drop (pointer (data_loader tv)) (batches (data_loader tv)))))) \<and>
     lr (sess tv') = lr (sess tv) \<and>
     batches (data_loader tv') = batches (data_loader tv) \<and>
     pointer (data_loader tv') = pointer (data_loader tv) + length ns \<and>
     loader_chars (data_loader tv') = loader_chars (data_loader tv) \<and>
     losses tv' = losses tv @ map got_loss
        (spec_log F (lr (sess tv)) (vars (sess tv)) state
          (take (length ns) (drop (pointer (data_loader tv)) (batches (data_loader tv))))) \<and>
     e_var tv' = e_var tv \<and>
     b_var tv' = (if ns = [] then b_var tv else Some (last ns))"
proof (induction ns arbitrary: state tv)
  case Nil
  then show ?case by simp
next
  case (Cons b ns)
  let ?ld = "data_loader tv"
  let ?p = "pointer ?ld"
  from Cons.prems have p: "?p < length (batches ?ld)" by simp
  have nb: "next_batch ?ld = Inr (batches ?ld ! ?p, ?ld\<lparr>pointer := ?p + 1\<rparr>)"
    using p by (simp add: next_batch_def py_index_def)
  obtain loss state' where c: "tf_cost F (vars (sess tv)) state (batches ?ld ! ?p) = (loss, state')"
    by (cases "tf_cost F (vars (sess tv)) state (batches ?ld ! ?p)")
  define sess' where "sess' = snd (snd (run_batch F (sess tv) state (batches ?ld ! ?p)))"
  have rb: "run_batch F (sess tv) state (batches ?ld ! ?p) = (loss, state', sess')"
    by (simp add: run_batch_def c sess'_def Let_def)
  define tv1 where "tv1 = tv\<lparr>sess := sess', data_loader := ?ld\<lparr>pointer := ?p + 1\<rparr>,
                     losses := losses tv @ [loss], b_var := Some b\<rparr>"
  have step: "batch_loop F (b # ns) state tv = batch_loop F ns state' tv1"
    by (simp add: nb rb tv1_def)
  have pre: "pointer (data_loader tv1) + length ns \<le> length (batches (data_loader tv1))"
    using Cons.prems by (simp add: tv1_def)
  have tk: "take (length (b # ns)) (drop ?p (batches ?ld))
      = batches ?ld ! ?p # take (length ns) (drop (Suc ?p) (batches ?ld))"
    using p by (simp add: Cons_nth_drop_Suc [symmetric])
  have s1: "vars sess' = tf_adam F (lr (sess tv))
      (fst (tf_clip_by_global_norm F (tf_gradients F (vars (sess tv)) state (batches ?ld ! ?p)) 5))
      (vars (sess tv))"
    "lr sess' = lr (sess tv)"
    "run_log sess' = run_log (sess tv) @ [\<lparr>vars_before = vars (sess tv), fed_state = state,
        fed_batch = batches ?ld ! ?p, used_lr = lr (sess tv),
        applied_grads = fst (tf_clip_by_global_norm F
          (tf_gradients F (vars (sess tv)) state (batches ?ld ! ?p)) 5),
        vars_after = vars sess', got_loss = loss, got_state = state'\<rparr>]"
    by (simp_all add: sess'_def run_batch_def c train_op_def clipped_gradients_def Let_def
        split: prod.splits)
  from Cons.IH [OF pre, of state'] obtain tv' where
    ih: "batch_loop F ns state' tv1
       = Inr (last (state' # map got_state
                (spec_log F (lr (sess tv1)) (vars (sess tv1)) state'
                   (take (length ns) (drop (pointer (data_loader tv1)) (batches (data_loader tv1)))))), tv')"
     "run_log (sess tv') = run_log (sess tv1) @
        spec_log F (lr (sess tv1)) (vars (sess tv1)) state'
          (take (length ns) (drop (pointer (data_loader tv1)) (batches (data_loader tv1))))"
     "vars (sess tv') = last (vars (sess tv1) # map vars_after
        (spec_log F (lr (sess tv1)) (vars (sess tv1)) state'
          (take (length ns) (drop (pointer (data_loader tv1)) (batches (data_loader tv1))))))"
     "lr (sess tv') = lr (sess tv1)"
     "batches (data_loader tv') = batches (data_loader tv1)"
     "pointer (data_loader tv') = pointer (data_loader tv1) + length ns"
     "loader_chars (data_loader tv') = loader_chars (data_loader tv1)"
     "losses tv' = losses tv1 @ map got_loss
        (spec_log F (lr (sess tv1)) (vars (sess tv1)) state'
          (take (length ns) (drop (pointer (data_loader tv1)) (batches (data_loader tv1)))))"
     "e_var tv' = e_var tv1"
     "b_var tv' = (if ns = [] then b_var tv1 else Some (last ns))"
    by blast
  have t1: "sess tv1 = sess'" "data_loader tv1 = ?ld\<lparr>pointer := ?p + 1\<rparr>"
    "losses tv1 = losses tv @ [loss]" "e_var tv1 = e_var tv" "b_var tv1 = Some b"
    by (simp_all add: tv1_def)
  show ?case
    apply (rule exI [of _ tv'])
    unfolding step tk
    using ih by (simp add: t1 s1 c Let_def)
qed

lemma length_spec_log: "length (spec_log F rate v state bs) = length bs"
  by (induction bs arbitrary: v state) (simp_all add: Let_def split: prod.splits)

lemma fed_batch_spec_log: "map fed_batch (spec_log F rate v state bs) = bs"
  by (induction bs arbitrary: v state) (simp_all add: Let_def split: prod.splits)

lemma used_lr_spec_log: "map used_lr (spec_log F rate v state bs) = replicate (length bs) rate"
  by (induction bs arbitrary: v state) (simp_all add: Let_def split: prod.splits)

lemma fed_state_spec_log:
  "map fed_state (spec_log F rate v state bs)
     = take (length bs) (state # map got_state (spec_log F rate v state bs))"
  by (induction bs arbitrary: v state) (simp_all add: Let_def split: prod.splits)

lemma vars_before_spec_log:
  "map vars_before (spec_log F rate v state bs)
     = take (length bs) (v # map vars_after (spec_log F rate v state bs))"
  by (induction bs arbitrary: v state) (simp_all add: Let_def split: prod.splits)

lemma applied_grads_spec_log:
  "map applied_grads (spec_log F rate v state bs)
     = map (\<lambda>r. fst (tf_clip_by_global_norm F
              (tf_gradients F (vars_before r) (fed_state r) (fed_batch r)) 5))
         (spec_log F rate v state bs)"
proof (induction bs arbitrary: v state)
  case Nil
  then show ?case by simp
next
  case (Cons b bs)
  obtain loss state' where c: "tf_cost F v state b = (loss, state')"
    by (cases "tf_cost F v state b")
  show ?case
    by (simp add: c Let_def Cons.IH)
qed

lemma vars_after_spec_log:
  "map vars_after (spec_log F rate v state bs)
     = map (\<lambda>r. tf_adam F rate (applied_grads r) (vars_before r)) (spec_log F rate v state bs)"
proof (induction bs arbitrary: v state)
  case Nil
  then show ?case by simp
next
  case (Cons b bs)
  obtain loss state' where c: "tf_cost F v state b = (loss, state')"
    by (cases "tf_cost F v state b")
  show ?case
    by (simp add: c Let_def Cons.IH)
qed

lemma run_epoch_spec:
  "\<exists>state' tv'. run_epoch F model e tv = Inr (state', tv') \<and>
     run_log (sess tv') = run_log (sess tv) @
        spec_log F (lr (sess tv)) (vars (sess tv)) (tf_zero_state F (graph_batch_size model))
          (batches (data_loader tv)) \<and>
     vars (sess tv') = last (vars (sess tv) # map vars_after
        (spec_log F (lr (sess tv)) (vars (sess tv)) (tf_zero_state F (graph_batch_size model))
          (batches (data_loader tv)))) \<and>
     lr (sess tv') = lr (sess tv) \<and>
     batches (data_loader tv') = batches (data_loader tv) \<and>
     loader_chars (data_loader tv') = loader_chars (data_loader tv) \<and>
     losses tv' = losses tv @ map got_loss
        (spec_log F (lr (sess tv)) (vars (sess tv)) (tf_zero_state F (graph_batch_size model))
          (batches (data_loader tv))) \<and>
     e_var tv' = Some e \<and>
     b_var tv' = (if batches (data_loader tv) = [] then b_var tv
                  else Some (length (batches (data_loader tv)) - 1))"
proof -
  define tv1 where
    "tv1 = tv\<lparr>e_var := Some e, data_loader := reset_batch_pointer (data_loader tv)\<rparr>"
  have t1: "sess tv1 = sess tv" "batches (data_loader tv1) = batches (data_loader tv)"
    "pointer (data_loader tv1) = 0" "losses tv1 = losses tv" "e_var tv1 = Some e"
    "b_var tv1 = b_var tv" "loader_chars (data_loader tv1) = loader_chars (data_loader tv)"
    by (simp_all add: tv1_def reset_batch_pointer_def)
  have pre: "pointer (data_loader tv1) + length [0..<num_batches (data_loader tv1)]
      \<le> length (batches (data_loader tv1))"
    by (simp add: t1 num_batches_def)
  have run: "run_epoch F model e tv
      = batch_loop F [0..<num_batches (data_loader tv1)]
          (tf_zero_state F (graph_batch_size model)) tv1"
    by (simp add: run_epoch_def tv1_def Let_def)
  from batch_loop_spec [OF pre, of F "tf_zero_state F (graph_batch_size model)"]
  show ?thesis
    unfolding run
    by (auto simp: t1 num_batches_def)
qed

lemma last_cons_append: "last (x # xs @ ys) = last (last (x # xs) # ys)"
  by (cases ys) simp_all

lemma length_spec_epochs: "length (spec_epochs F zero rate v n bs) = n * length bs"
  by (induction n arbitrary: v) (simp_all add: Let_def length_spec_log)

lemma used_lr_spec_epochs:
  "map used_lr (spec_epochs F zero rate v n bs) = replicate (n * length bs) rate"
  by (induction n arbitrary: v) (simp_all add: Let_def used_lr_spec_log replicate_add)

lemma applied_grads_spec_epochs:
  "map applied_grads (spec_epochs F zero rate v n bs)
     = map (\<lambda>r. fst (tf_clip_by_global_norm F
              (tf_gradients F (vars_before r) (fed_state r) (fed_batch r)) 5))
         (spec_epochs F zero rate v n bs)"
  by (induction n arbitrary: v) (simp_all add: Let_def applied_grads_spec_log)

lemma vars_after_spec_epochs:
  "map vars_after (spec_epochs F zero rate v n bs)
     = map (\<lambda>r. tf_adam F rate (applied_grads r) (vars_before r))
         (spec_epochs F zero rate v n bs)"
  by (induction n arbitrary: v) (simp_all add: Let_def vars_after_spec_log)

lemma chain_append:
  assumes "length ys = length xs" and "xs = take (length xs) (v # ys)"
    and "zs = take (length zs) (last (v # ys) # ws)"
  shows "xs @ zs = take (length xs + length zs) (v # ys @ ws)"
proof (cases zs)
  case Nil
  have "take (length xs) (v # ys @ ws) = take (length xs) (v # ys)"
    using assms(1) by (cases xs) simp_all
  with assms(2) Nil show ?thesis by simp
next
  case (Cons z zs')
  from assms(1,2) have "xs = butlast (v # ys)"
    by (simp add: butlast_conv_take)
  moreover have "butlast (v # ys) @ [last (v # ys)] = v # ys"
    by (rule append_butlast_last_id) simp
  ultimately have a: "xs @ [last (v # ys)] = v # ys" by simp
  from assms(3) Cons have b: "zs = last (v # ys) # take (length zs') ws" by simp
  have "take (length xs + length zs) (v # ys @ ws) = (v # ys) @ take (length zs') ws"
    using assms(1) Cons by simp
  with a b show ?thesis by (metis append.assoc append_Cons append_Nil)
qed

lemma vars_before_spec_epochs:
  "map vars_before (spec_epochs F zero rate v n bs)
     = take (n * length bs) (v # map vars_after (spec_epochs F zero rate v n bs))"
proof (induction n arbitrary: v)
  case 0
  then show ?case by simp
next
  case (Suc n)
  let ?A = "spec_log F rate v zero bs"
  let ?B = "spec_epochs F zero rate (last (v # map vars_after ?A)) n bs"
  have "map vars_before ?A @ map vars_before ?B
      = take (length (map vars_before ?A) + length (map vars_before ?B))
          (v # map vars_after ?A @ map vars_after ?B)"
  proof (rule chain_append)
    show "length (map vars_after ?A) = length (map vars_before ?A)" by simp
    show "map vars_before ?A = take (length (map vars_before ?A)) (v # map vars_after ?A)"
      using vars_before_spec_log [of F rate v zero bs] by (simp add: length_spec_log)
    show "map vars_before ?B
        = take (length (map vars_before ?B)) (last (v # map vars_after ?A) # map vars_after ?B)"
      using Suc.IH [of "last (v # map vars_after ?A)"] by (simp add: length_spec_epochs)
  qed
  then show ?case
    by (simp add: Let_def length_spec_log length_spec_epochs)
qed

lemma epoch_loop_spec:
  "\<exists>tv'. epoch_loop F model es tv = Inr tv' \<and>
     run_log (sess tv') = run_log (sess tv) @
        spec_epochs F (tf_zero_state F (graph_batch_size model)) (lr (sess tv)) (vars (sess tv))
          (length es) (batches (data_loader tv)) \<and>
     vars (sess tv') = last (vars (sess tv) # map vars_after
        (spec_epochs F (tf_zero_state F (graph_batch_size model)) (lr (sess tv)) (vars (sess tv))
          (length es) (batches (data_loader tv)))) \<and>
     lr (sess tv') = lr (sess tv) \<and>
     batches (data_loader tv') = batches (data_loader tv) \<and>
     losses tv' = losses tv @ map got_loss
        (spec_epochs F (tf_zero_state F (graph_batch_size model)) (lr (sess tv)) (vars (sess tv))
          (length es) (batches (data_loader tv))) \<and>
     e_var tv' = (if es = [] then e_var tv else Some (last es)) \<and>
     b_var tv' = (if es = [] \<or> batches (data_loader tv) = [] then b_var tv
                  else Some (length (batches (data_loader tv)) - 1))"
proof (induction es arbitrary: tv)
  case Nil
  then show ?case by simp
next
  case (Cons e es)
  let ?z = "tf_zero_state F (graph_batch_size model)"
  let ?L = "spec_log F (lr (sess tv)) (vars (sess tv)) ?z (batches (data_loader tv))"
  from run_epoch_spec [of F model e tv] obtain state1 tv1 where
    r: "run_epoch F model e tv = Inr (state1, tv1)"
      "run_log (sess tv1) = run_log (sess tv) @ ?L"
      "vars (sess tv1) = last (vars (sess tv) # map vars_after ?L)"
      "lr (sess tv1) = lr (sess tv)"
      "batches (data_loader tv1) = batches (data_loader tv)"
      "losses tv1 = losses tv @ map got_loss ?L"
      "e_var tv1 = Some e"
      "b_var tv1 = (if batches (data_loader tv) = [] then b_var tv
                    else Some (length (batches (data_loader tv)) - 1))"
    by blast
  let ?M = "spec_epochs F ?z (lr (sess tv1)) (vars (sess tv1)) (length es) (batches (data_loader tv1))"
  from Cons.IH [of tv1] obtain tv' where
    ih: "epoch_loop F model es tv1 = Inr tv'"
      "run_log (sess tv') = run_log (sess tv1) @ ?M"
      "vars (sess tv') = last (vars (sess tv1) # map vars_after ?M)"
      "lr (sess tv') = lr (sess tv1)"
      "batches (data_loader tv') = batches (data_loader tv1)"
      "losses tv' = losses tv1 @ map got_loss ?M"
      "e_var tv' = (if es = [] then e_var tv1 else Some (last es))"
      "b_var tv' = (if es = [] \<or> batches (data_loader tv1) = [] then b_var tv1
                    else Some (length (batches (data_loader tv1)) - 1))"
    by blast
  have step: "epoch_loop F model (e # es) tv = epoch_loop F model es tv1"
    by (simp add: r(1))
  show ?case
    apply (rule exI [of _ tv'])
    unfolding step
    using ih by (simp add: r Let_def last_cons_append)
qed

lemma train_spec:
  assumes "0 < num_epochs" and "batches ld \<noteq> []"
  shows "\<exists>tv. train F model num_epochs ld w
        = (w\<lparr>files := saver_save (files w) (sess tv) (num_epochs * num_batches ld - 1)\<rparr>, Inr tv) \<and>
     run_log (sess tv) = spec_epochs F (tf_zero_state F (graph_batch_size model)) (2 / 1000)
        (tf_init F (tf_seed w)) num_epochs (batches ld) \<and>
     vars (sess tv) = last (tf_init F (tf_seed w) # map vars_after (run_log (sess tv))) \<and>
     lr (sess tv) = 2 / 1000 \<and>
     losses tv = map got_loss (run_log (sess tv))"
proof -
  define tv0 where
    "tv0 = \<lparr>sess = (init_session F (tf_seed w))\<lparr>lr := 2 / 1000\<rparr>, data_loader = ld,
            losses = [], e_var = None, b_var = None\<rparr>"
  have t0: "run_log (sess tv0) = []" "vars (sess tv0) = tf_init F (tf_seed w)"
    "lr (sess tv0) = 2 / 1000" "batches (data_loader tv0) = batches ld" "losses tv0 = []"
    by (simp_all add: tv0_def init_session_def)
  from epoch_loop_spec [of F model "[0..<num_epochs]" tv0] obtain tv where
    tv: "epoch_loop F model [0..<num_epochs] tv0 = Inr tv"
      "run_log (sess tv) = spec_epochs F (tf_zero_state F (graph_batch_size model)) (2 / 1000)
          (tf_init F (tf_seed w)) num_epochs (batches ld)"
      "vars (sess tv) = last (tf_init F (tf_seed w) # map vars_after
          (spec_epochs F (tf_zero_state F (graph_batch_size model)) (2 / 1000)
          (tf_init F (tf_seed w)) num_epochs (batches ld)))"
      "lr (sess tv) = 2 / 1000"
      "batches (data_loader tv) = batches ld"
      "losses tv = map got_loss (spec_epochs F (tf_zero_state F (graph_batch_size model)) (2 / 1000)
          (tf_init F (tf_seed w)) num_epochs (batches ld))"
      "e_var tv = Some (num_epochs - 1)"
      "b_var tv = Some (length (batches ld) - 1)"
    using assms by (auto simp: t0)
  have gs: "(num_epochs - 1) * length (batches ld) + (length (batches ld) - 1)
      = num_epochs * length (batches ld) - 1"
    using assms by (cases num_epochs; cases "batches ld") simp_all
  have "train F model num_epochs ld w
      = (case epoch_loop F model [0..<num_epochs] tv0 of
           Inl err \<Rightarrow> (w, Inl err)
         | Inr tv \<Rightarrow>
             (case e_var tv of
                None \<Rightarrow> (w, Inl NameError)
              | Some e \<Rightarrow>
                  (case b_var tv of
                     None \<Rightarrow> (w, Inl NameError)
                   | Some b \<Rightarrow>
                       (w\<lparr>files := saver_save (files w) (sess tv)
                                     (e * num_batches (data_loader tv) + b)\<rparr>,
                        Inr tv))))"
    unfolding train_def Let_def tv0_def ..
  then have "train F model num_epochs ld w
      = (w\<lparr>files := saver_save (files w) (sess tv) (num_epochs * num_batches ld - 1)\<rparr>, Inr tv)"
    using tv(1,5,7,8) gs by (simp add: num_batches_def)
  with tv show ?thesis by auto
qed

lemma cost_spec_log:
  "map (\<lambda>r. tf_cost F (vars_before r) (fed_state r) (fed_batch r)) (spec_log F rate v state bs)
     = map (\<lambda>r. (got_loss r, got_state r)) (spec_log F rate v state bs)"
proof (induction bs arbitrary: v state)
  case Nil
  then show ?case by simp
next
  case (Cons b bs)
  obtain loss state' where c: "tf_cost F v state b = (loss, state')"
    by (cases "tf_cost F v state b")
  show ?case
    by (simp add: c Let_def Cons.IH)
qed

lemma cost_spec_epochs:
  "map (\<lambda>r. tf_cost F (vars_before r) (fed_state r) (fed_batch r)) (spec_epochs F zero rate v n bs)
     = map (\<lambda>r. (got_loss r, got_state r)) (spec_epochs F zero rate v n bs)"
  by (induction n arbitrary: v) (simp_all add: Let_def cost_spec_log)

text \<open>
  C2. One epoch, started from any values of the cell's variables, raises nothing and
  makes exactly \<open>num_batches\<close> training runs, on the loader's batches in their order.
  The first run is fed the zero state and every later run is fed the state the run
  before it returned: the state is set to zero once, at the start of the epoch, and
  never in between. What each run returns is the framework's cost and final state for
  what it was fed, and the losses are appended to \<open>losses\<close> in the order of the runs.
\<close>

theorem run_epoch_threads_state:
  "\<exists>state' tv' new.
     run_epoch F model e tv = Inr (state', tv') \<and>
     run_log (sess tv') = run_log (sess tv) @ new \<and>
     length new = num_batches (data_loader tv) \<and>
     map fed_batch new = batches (data_loader tv) \<and>
     map fed_state new
       = take (length new) (tf_zero_state F (graph_batch_size model) # map got_state new) \<and>
     map (\<lambda>r. (got_loss r, got_state r)) new
       = map (\<lambda>r. tf_cost F (vars_before r) (fed_state r) (fed_batch r)) new \<and>
     losses tv' = losses tv @ map got_loss new"
proof -
  let ?new = "spec_log F (lr (sess tv)) (vars (sess tv))
      (tf_zero_state F (graph_batch_size model)) (batches (data_loader tv))"
  from run_epoch_spec [of F model e tv] obtain state' tv' where
    "run_epoch F model e tv = Inr (state', tv')"
    "run_log (sess tv') = run_log (sess tv) @ ?new"
    "losses tv' = losses tv @ map got_loss ?new"
    by blast
  moreover have "length ?new = num_batches (data_loader tv)"
    by (simp add: length_spec_log num_batches_def)
  moreover have "map fed_batch ?new = batches (data_loader tv)"
    by (rule fed_batch_spec_log)
  moreover have "map fed_state ?new
      = take (length ?new) (tf_zero_state F (graph_batch_size model) # map got_state ?new)"
    using fed_state_spec_log [of F _ _ _ "batches (data_loader tv)"]
    by (simp add: length_spec_log)
  moreover have "map (\<lambda>r. (got_loss r, got_state r)) ?new
      = map (\<lambda>r. tf_cost F (vars_before r) (fed_state r) (fed_batch r)) ?new"
    by (rule cost_spec_log [symmetric])
  ultimately show ?thesis by blast
qed

text \<open>
  C3. In a training run of at least one epoch over at least one batch, there is one
  training run per batch of every epoch, and for every one of them:
  \<^item> the learning rate the optimizer read is 0.002;
  \<^item> the gradients the optimizer was given are the first component of
    \<^verbatim>\<open>tf.clip_by_global_norm\<close>, called with the constant 5, of the gradients of the cost at
    the variables, the state and the batch of that run;
  \<^item> the variables it left are \<^verbatim>\<open>AdamOptimizer(0.002).apply_gradients\<close> of those clipped
    gradients on the variables it found;
  \<^item> the variables it found are the ones the run before it left, the first run
    finding the initial values, and the session ends with the variables the last run
    left;
  \<^item> whatever the framework's clipping with ceiling 5 guarantees of its result (\<open>Q\<close>, as
    a global norm of at most 5) holds of the gradients given to the optimizer.

  The rate is 0 after initialization, is assigned once before the loops and is still
  0.002 after them. The gradients, the clipping and the optimizer are the framework's.
\<close>

theorem train_updates:
  assumes "0 < num_epochs" and "batches ld \<noteq> []"
  shows "\<exists>tv. snd (train F model num_epochs ld w) = Inr tv \<and>
     length (run_log (sess tv)) = num_epochs * num_batches ld \<and>
     map used_lr (run_log (sess tv)) = replicate (num_epochs * num_batches ld) (2 / 1000) \<and>
     map applied_grads (run_log (sess tv))
       = map (\<lambda>r. fst (tf_clip_by_global_norm F
                (tf_gradients F (vars_before r) (fed_state r) (fed_batch r)) 5))
           (run_log (sess tv)) \<and>
     map vars_after (run_log (sess tv))
       = map (\<lambda>r. tf_adam F (2 / 1000) (applied_grads r) (vars_before r)) (run_log (sess tv)) \<and>
     map vars_before (run_log (sess tv))
       = take (num_epochs * num_batches ld)
           (tf_init F (tf_seed w) # map vars_after (run_log (sess tv))) \<and>
     vars (sess tv) = last (tf_init F (tf_seed w) # map vars_after (run_log (sess tv))) \<and>
     ((\<forall>grads. Q (fst (tf_clip_by_global_norm F grads 5)))
        \<longrightarrow> list_all Q (map applied_grads (run_log (sess tv)))) \<and>
     lr (sess tv) = 2 / 1000 \<and>
     lr (init_session F (tf_seed w)) = 0"
proof -
  from train_spec [OF assms, of F model w] obtain tv where
    tv: "train F model num_epochs ld w
        = (w\<lparr>files := saver_save (files w) (sess tv) (num_epochs * num_batches ld - 1)\<rparr>, Inr tv)"
     "run_log (sess tv) = spec_epochs F (tf_zero_state F (graph_batch_size model)) (2 / 1000)
        (tf_init F (tf_seed w)) num_epochs (batches ld)"
     "vars (sess tv) = last (tf_init F (tf_seed w) # map vars_after (run_log (sess tv)))"
     "lr (sess tv) = 2 / 1000"
    by blast
  have "snd (train F model num_epochs ld w) = Inr tv" by (simp add: tv(1))
  moreover have "length (run_log (sess tv)) = num_epochs * num_batches ld"
    by (simp add: tv(2) length_spec_epochs num_batches_def)
  moreover have "map used_lr (run_log (sess tv))
      = replicate (num_epochs * num_batches ld) (2 / 1000)"
    by (simp only: tv(2) used_lr_spec_epochs num_batches_def)
  moreover have g: "map applied_grads (run_log (sess tv))
       = map (\<lambda>r. fst (tf_clip_by_global_norm F
                (tf_gradients F (vars_before r) (fed_state r) (fed_batch r)) 5))
           (run_log (sess tv))"
    by (simp only: tv(2) applied_grads_spec_epochs)
  moreover have "map vars_after (run_log (sess tv))
      = map (\<lambda>r. tf_adam F (2 / 1000) (applied_grads r) (vars_before r)) (run_log (sess tv))"
    by (simp only: tv(2) vars_after_spec_epochs)
  moreover have "map vars_before (run_log (sess tv))
       = take (num_epochs * num_batches ld)
           (tf_init F (tf_seed w) # map vars_after (run_log (sess tv)))"
    by (simp only: tv(2) vars_before_spec_epochs num_batches_def)
  moreover have "(\<forall>grads. Q (fst (tf_clip_by_global_norm F grads 5)))
        \<longrightarrow> list_all Q (map applied_grads (run_log (sess tv)))"
    by (simp only: g) (simp add: list_all_iff)
  moreover have "lr (init_session F (tf_seed w)) = 0" by (simp add: init_session_def)
  ultimately show ?thesis using tv(3,4) by blast
qed


lemma sum_squares_scaled:
  "(\<Sum>x\<leftarrow>map (\<lambda>x. x * k) grads. x\<^sup>2) = k\<^sup>2 * (\<Sum>x\<leftarrow>grads. x\<^sup>2)" for k :: real
  by (induction grads) (simp_all add: power_mult_distrib algebra_simps)

lemma sum_squares_nonneg: "0 \<le> (\<Sum>x\<leftarrow>grads. x\<^sup>2)" for grads :: "real list"
  by (induction grads) simp_all

lemma example_clip_norm:
  "(\<Sum>x\<leftarrow>fst (tf_clip_by_global_norm example_framework grads 5). x\<^sup>2) \<le> 25"
proof -
  define S where "S = (\<Sum>x\<leftarrow>grads. x\<^sup>2)"
  define m where "m = max (sqrt S) 5"
  have S: "0 \<le> S" unfolding S_def by (rule sum_squares_nonneg)
  have m: "0 < m" "sqrt S \<le> m" by (simp_all add: m_def)
  have "S = (sqrt S)\<^sup>2" using S by simp
  also have "\<dots> \<le> m\<^sup>2" using m S by (intro power_mono) simp_all
  finally have le: "S \<le> m\<^sup>2" .
  have "fst (tf_clip_by_global_norm example_framework grads 5) = map (\<lambda>x. x * (5 / m)) grads"
    by (simp add: example_framework_def m_def S_def)
  then have "(\<Sum>x\<leftarrow>fst (tf_clip_by_global_norm example_framework grads 5). x\<^sup>2)
      = (5 / m)\<^sup>2 * S"
    by (simp only: sum_squares_scaled S_def)
  also have "\<dots> = 25 * (S / m\<^sup>2)" by (simp add: power_divide)
  also have "\<dots> \<le> 25 * 1"
    using le m(1) by (intro mult_left_mono) (simp_all add: divide_le_eq_1)
  finally show ?thesis by simp
qed

theorem train_updates_witness:
  "0 < (1 :: nat) \<and> batches example_loader \<noteq> [] \<and>
   (\<forall>grads. (\<Sum>x\<leftarrow>fst (tf_clip_by_global_norm example_framework grads 5). x\<^sup>2) \<le> 25) \<and>
   (\<exists>tv. snd (train example_framework example_model 1 example_loader (empty_world low_draws))
        = Inr tv \<and>
      map used_lr (run_log (sess tv)) = [2 / 1000, 2 / 1000] \<and>
      list_all (\<lambda>g. (\<Sum>x\<leftarrow>g. x\<^sup>2) \<le> 25) (map applied_grads (run_log (sess tv))) \<and>
      lr (sess tv) = 2 / 1000)"
  using train_updates
    [where num_epochs = 1 and ld = example_loader and F = example_framework
       and model = example_model and w = "empty_world low_draws"
       and Q = "\<lambda>g. (\<Sum>x\<leftarrow>g. x\<^sup>2) \<le> 25"]
    example_clip_norm
  by (auto simp: example_loader_def num_batches_def)

subsection \<open>The constructor and the seed\<close>

text \<open>
  C5. The function \<open>sample\<close> seeds the framework's generator (line 354), but the draws
  of \<open>weighted_pick\<close> come from NumPy's generator, which no line of the notebook seeds.
  Two runs from the same save directory, with the same seed 100, the same parameters,
  the same prime and the same count, write different texts when NumPy's generator
  starts in different states.
\<close>

theorem sample_not_reproducible:
  "sample example_framework 1 ''a'' (trained_world low_draws)
     = ((trained_world low_draws)
          \<lparr>tf_seed := Some 100,
           files := (files (trained_world low_draws))(SampleTxt \<mapsto> Utf8Text ''aa''),
           console := [''aa'']\<rparr>, None) \<and>
   sample example_framework 1 ''a'' (trained_world high_draws)
     = ((trained_world high_draws)
          \<lparr>tf_seed := Some 100,
           files := (files (trained_world high_draws))(SampleTxt \<mapsto> Utf8Text ''ab''),
           console := [''ab'']\<rparr>, None)"
  by (simp add: sample_def trained_world_def load_config_def load_chars_vocab_def
      Model_init_def example_framework_def init_session_def get_checkpoint_state_def
      saver_restore_def Model_sample_def py_last_def py_index_def pick_low pick_high Let_def)

text \<open>
  C7, as stated, fails: in inference mode a sequence length of 0 is replaced by 1 and
  the construction succeeds, here with a framework that accepts exactly the positive
  dimensions.
\<close>

theorem Model_init_counterexample: "Model_init example_framework 32 0 65 False
     = Inr \<lparr>graph_batch_size = 1, graph_seq_length = 1, graph_vocab_size = 65,
            rnn_size = 128, num_layers = 1\<rparr>"
  by (simp add: Model_init_def example_framework_def)

text \<open>
  C7, amended. The constructor checks none of its arguments and never fails with
  \<open>ConfigError\<close>. With training disabled the batch size and sequence length passed are
  ignored: the graph is built for 1 and 1. In training mode the construction succeeds
  exactly when the framework builds the graph for the dimensions passed.
\<close>

theorem Model_init_no_check:
  "Model_init F batch_size seq_length vocab_size training \<noteq> Inl ConfigError \<and>
   Model_init F batch_size seq_length vocab_size False = Model_init F 1 1 vocab_size False \<and>
   (\<exists>m. Model_init F batch_size seq_length vocab_size True = Inr m)
     = tf_accepts F batch_size seq_length vocab_size"
  by (simp add: Model_init_def)

subsection \<open>Sampling from the save directory\<close>









text \<open>
  C4. After the configuration and the vocabulary were pickled and a training run of at
  least one epoch over at least one batch saved its checkpoint, the loads of the
  function \<open>sample\<close> return the configuration tuple and the pair of characters and
  vocabulary that were pickled, the checkpoint state names the saved checkpoint, and
  restoring it into any session gives back the variables and the learning rate of the
  trained session, hence the same forward step on every state and input.
\<close>

theorem save_load_round_trip:
  assumes "save_config F batch_size seq_length ld w = (w1, Inr model)"
    and "0 < num_epochs" and "batches ld \<noteq> []"
  shows "\<exists>w2 tv ckpt sn'.
     train F model num_epochs ld w1 = (w2, Inr tv) \<and>
     load_config (files w2) = Inr (batch_size, seq_length, loader_vocab_size ld) \<and>
     load_chars_vocab (files w2) = Inr (loader_chars ld, loader_vocab ld) \<and>
     get_checkpoint_state (files w2) = Some ckpt \<and>
     saver_restore (files w2) ckpt sn = Inr sn' \<and>
     vars sn' = vars (sess tv) \<and> lr sn' = lr (sess tv) \<and>
     tf_forward F (vars sn') state i = tf_forward F (vars (sess tv)) state i"
proof -
  from assms(1) have f1: "files w1 = (files w)
      (ConfigPkl \<mapsto> Pickle3 batch_size seq_length (loader_vocab_size ld),
       CharsVocabPkl \<mapsto> Pickle2 (loader_chars ld) (loader_vocab ld))"
    by (auto simp: save_config_def Let_def split: sum.splits)
  from train_spec [OF assms(2,3), of F model w1] obtain tv where
    tv: "train F model num_epochs ld w1
        = (w1\<lparr>files := saver_save (files w1) (sess tv) (num_epochs * num_batches ld - 1)\<rparr>, Inr tv)"
    by blast
  let ?k = "num_epochs * num_batches ld - 1"
  let ?fs = "saver_save (files w1) (sess tv) ?k"
  have "load_config ?fs = Inr (batch_size, seq_length, loader_vocab_size ld)"
    by (simp add: load_config_def saver_save_def f1)
  moreover have "load_chars_vocab ?fs = Inr (loader_chars ld, loader_vocab ld)"
    by (simp add: load_chars_vocab_def saver_save_def f1)
  moreover have "get_checkpoint_state ?fs = Some ?k"
    by (simp add: get_checkpoint_state_def saver_save_def)
  moreover have "saver_restore ?fs ?k sn = Inr (sn\<lparr>vars := vars (sess tv), lr := lr (sess tv)\<rparr>)"
    by (simp add: saver_restore_def saver_save_def)
  ultimately show ?thesis
    using tv by (intro exI [of _ "w1\<lparr>files := ?fs\<rparr>"] exI [of _ tv] exI [of _ ?k]
        exI [of _ "sn\<lparr>vars := vars (sess tv), lr := lr (sess tv)\<rparr>"]) simp
qed

theorem save_load_round_trip_witness:
  "save_config example_framework 32 50 example_loader (empty_world low_draws)
     = ((untrained_world low_draws)\<lparr>tf_seed := Some 100\<rparr>, Inr example_model) \<and>
   0 < (1 :: nat) \<and> batches example_loader \<noteq> [] \<and>
   (\<exists>w2 tv. train example_framework example_model 1 example_loader
               ((untrained_world low_draws)\<lparr>tf_seed := Some 100\<rparr>) = (w2, Inr tv) \<and>
      load_config (files w2) = Inr (32, 50, 2) \<and>
      load_chars_vocab (files w2) = Inr (''ab'', [CHR ''a'' \<mapsto> 0, CHR ''b'' \<mapsto> 1]))"
proof -
  have s: "save_config example_framework 32 50 example_loader (empty_world low_draws)
     = ((untrained_world low_draws)\<lparr>tf_seed := Some 100\<rparr>, Inr example_model)"
    by (simp add: save_config_def Let_def Model_init_def example_framework_def example_loader_def
        empty_world_def untrained_world_def example_model_def)
  have b: "batches example_loader \<noteq> []" by (simp add: example_loader_def)
  from save_load_round_trip
    [where num_epochs = 1 and sn = "init_session example_framework None" and state = 0
       and i = 0, OF s _ b]
  obtain w2 tv ckpt where
    "train example_framework example_model 1 example_loader
       ((untrained_world low_draws)\<lparr>tf_seed := Some 100\<rparr>) = (w2, Inr tv)"
    "load_config (files w2) = Inr (32, 50, loader_vocab_size example_loader)"
    "load_chars_vocab (files w2) = Inr (loader_chars example_loader, loader_vocab example_loader)"
    by auto
  then show ?thesis
    using s b by (auto simp: example_loader_def)
qed



end
